theory Spec2Isabelle
  imports Main
begin

section \<open>Python values\<close>

text \<open>
  The arguments of \<open>Search.gpt\<close> and \<open>Search.web\<close> are dynamically typed, and both
  methods branch on the run-time type of what they receive (\<open>isinstance\<close>, \<open>is None\<close>,
  truthiness).  The model therefore works on a datatype of Python values: \<open>None\<close>,
  \<open>bool\<close>, \<open>int\<close>, \<open>str\<close>, \<open>list\<close> and \<open>dict\<close>.  A \<open>str\<close> is a list of
  characters, one \<open>char\<close> per code point below 256.  Floats and user-defined objects
  are outside the model.
\<close>

datatype pyval =
    PNone
  | PBool bool
  | PInt int
  | PStr string
  | PList "pyval list"
  | PDict "(pyval \<times> pyval) list"

text \<open>Truth value testing: \<open>None\<close>, \<open>False\<close>, \<open>0\<close> and empty containers are false.\<close>

fun truthy :: "pyval \<Rightarrow> bool" where
  "truthy PNone = False"
| "truthy (PBool b) = b"
| "truthy (PInt i) = (i \<noteq> 0)"
| "truthy (PStr s) = (s \<noteq> [])"
| "truthy (PList xs) = (xs \<noteq> [])"
| "truthy (PDict kvs) = (kvs \<noteq> [])"

text \<open>\<open>a or b\<close> evaluates to \<open>a\<close> when \<open>a\<close> is true, and to \<open>b\<close> otherwise.\<close>

definition py_or :: "pyval \<Rightarrow> pyval \<Rightarrow> pyval" where
  "py_or a b = (if truthy a then a else b)"

text \<open>\<open>isinstance(v, str)\<close>, \<open>isinstance(v, list)\<close>, \<open>isinstance(v, bool)\<close>.\<close>

fun isinstance_str :: "pyval \<Rightarrow> bool" where
  "isinstance_str (PStr s) = True"
| "isinstance_str v = False"

fun isinstance_list :: "pyval \<Rightarrow> bool" where
  "isinstance_list (PList xs) = True"
| "isinstance_list v = False"

fun isinstance_bool :: "pyval \<Rightarrow> bool" where
  "isinstance_bool (PBool b) = True"
| "isinstance_bool v = False"

text \<open>\<open>isinstance(v, int)\<close>: \<open>bool\<close> is a subclass of \<open>int\<close>, so this holds of
  \<open>True\<close> and \<open>False\<close> too, which compare as 1 and 0.\<close>

fun isinstance_int :: "pyval \<Rightarrow> bool" where
  "isinstance_int (PInt i) = True"
| "isinstance_int (PBool b) = True"
| "isinstance_int v = False"

fun int_value :: "pyval \<Rightarrow> int" where
  "int_value (PInt i) = i"
| "int_value (PBool b) = (if b then 1 else 0)"
| "int_value v = 0"

section \<open>Exceptions\<close>

text \<open>
  \<open>ValidationError\<close> and \<open>APIError\<close> are imported from the package's \<open>exceptions\<close>
  module; they are taken here as two unrelated exception classes, each carrying its
  message.  \<open>ValueError\<close> and \<open>TypeError\<close> are the built-in ones.  \<open>OtherException\<close>
  stands for any exception of another class that a collaborator may raise.
\<close>

datatype exn =
    ValidationError string
  | APIError string
  | ValueError string
  | TypeError string
  | OtherException string

fun is_ValidationError :: "exn \<Rightarrow> bool" where
  "is_ValidationError (ValidationError m) = True"
| "is_ValidationError e = False"

fun is_APIError :: "exn \<Rightarrow> bool" where
  "is_APIError (APIError m) = True"
| "is_APIError e = False"

fun is_TypeError :: "exn \<Rightarrow> bool" where
  "is_TypeError (TypeError m) = True"
| "is_TypeError e = False"

section \<open>The country pattern\<close>

text \<open>
  \<open>re.match(r"^[A-Z]{2}$", c)\<close>.  The class \<open>[A-Z]\<close> is the 26 ASCII capitals.  In
  Python's \<open>re\<close>, without the MULTILINE flag, \<open>$\<close> matches at the end of the string
  and also just before a newline that is the last character of the string, so the
  pattern matches two capitals, optionally followed by one final newline.  On an
  argument that is neither \<open>str\<close> nor bytes-like, \<open>re.match\<close> raises \<open>TypeError\<close>; a
  bytes-like argument with a \<open>str\<close> pattern does too.  The text of that
  \<open>TypeError\<close> is the interpreter's, not this file's: since CPython 3.11 it names
  the type of the argument, as below; earlier versions stop before the comma.  The
  properties proved here speak of its class only.
\<close>

fun type_name :: "pyval \<Rightarrow> string" where
  "type_name PNone = ''NoneType''"
| "type_name (PBool b) = ''bool''"
| "type_name (PInt i) = ''int''"
| "type_name (PStr s) = ''str''"
| "type_name (PList xs) = ''list''"
| "type_name (PDict kvs) = ''dict''"

definition upper_AZ :: "char \<Rightarrow> bool" where
  "upper_AZ c = (65 \<le> (of_char c :: nat) \<and> (of_char c :: nat) \<le> 90)"

fun match_AZ2 :: "string \<Rightarrow> bool" where
  "match_AZ2 [a, b] = (upper_AZ a \<and> upper_AZ b)"
| "match_AZ2 [a, b, c] = (upper_AZ a \<and> upper_AZ b \<and> c = CHR 0x0A)"
| "match_AZ2 s = False"

fun re_match_country :: "pyval \<Rightarrow> exn + bool" where
  "re_match_country (PStr s) = Inr (match_AZ2 s)"
| "re_match_country v =
     Inl (TypeError
       (''expected string or bytes-like object, got '' @ [CHR 0x27] @ type_name v
          @ [CHR 0x27]))"

section \<open>The delegate calls\<close>

text \<open>The keyword arguments of \<open>chatgpt_api.scrape_chatgpt\<close>.\<close>

record chatgpt_call =
  kw_prompts :: "pyval list"
  kw_countries :: "pyval list"
  kw_additional_prompts :: "pyval list"
  kw_web_searches :: "pyval list"
  kw_sync :: pyval
  kw_timeout :: pyval

text \<open>The positional arguments of \<open>search_api.search\<close>, in order.\<close>

record search_call =
  arg_query :: pyval
  arg_search_engine :: pyval
  arg_zone :: pyval
  arg_response_format :: pyval
  arg_method :: pyval
  arg_country :: pyval
  arg_data_format :: pyval
  arg_async_request :: pyval
  arg_max_workers :: pyval
  arg_timeout :: pyval
  arg_parse :: pyval

text \<open>What a call of \<open>gpt\<close> or \<open>web\<close> does to the outside, in order.\<close>

datatype event =
    Scrape chatgpt_call
  | Sleep nat
  | SearchCall search_call

text \<open>
  A collaborator is a function of its arguments and its own state \<open>'s\<close>: it raises
  (\<open>Inl\<close>) or returns a result (\<open>Inr\<close>), and moves to a next state, so that
  successive calls with the same arguments may differ.
\<close>

type_synonym ('c, 's, 'r) delegate = "'c \<Rightarrow> 's \<Rightarrow> (exn + 'r) \<times> 's"

text \<open>The fields of the root client that \<open>web\<close> reads.\<close>

record client =
  serp_zone :: pyval
  DEFAULT_MAX_WORKERS :: pyval

section \<open>\<open>Search.gpt\<close>\<close>

text \<open>Lines 41--46: the prompts as a list.\<close>

definition normalize_prompts :: "pyval \<Rightarrow> exn + pyval list" where
  "normalize_prompts prompt =
     (case prompt of
        PStr s \<Rightarrow> Inr [prompt]
      | PList ps \<Rightarrow>
          if list_all isinstance_str ps then Inr ps
          else Inl (ValidationError
            ''Invalid prompt input: must be a non-empty string or list of strings.'')
      | _ \<Rightarrow> Inl (ValidationError
            ''Invalid prompt input: must be a non-empty string or list of strings.''))"

text \<open>Lines 52--59: the helper \<open>_normalize\<close>, with \<open>len(prompts)\<close> as \<open>n\<close>.\<close>

definition normalize :: "nat \<Rightarrow> pyval \<Rightarrow> string \<Rightarrow> exn + pyval list" where
  "normalize n param name =
     (case param of
        PNone \<Rightarrow> Inr (replicate n PNone)
      | PList xs \<Rightarrow>
          if length xs \<noteq> n
          then Inl (ValidationError (name @ '' list must have the same length as prompts.''))
          else Inr xs
      | _ \<Rightarrow> Inr (replicate n param))"

text \<open>Lines 66--68.  The message formats \<open>c\<close>, which is a \<open>str\<close> where it is reached.\<close>

fun str_of :: "pyval \<Rightarrow> string" where
  "str_of (PStr s) = s"
| "str_of v = []"

fun check_countries :: "pyval list \<Rightarrow> exn + unit" where
  "check_countries [] = Inr ()"
| "check_countries (c # cs) =
     (if truthy c then
        (case re_match_country c of
           Inl e \<Rightarrow> Inl e
         | Inr m \<Rightarrow>
             if \<not> m
             then Inl (ValidationError
               (''Invalid country code '' @ [CHR 0x27] @ str_of c @ [CHR 0x27]
                  @ ''. Must be 2 uppercase letters.''))
             else check_countries cs)
      else check_countries cs)"

text \<open>Lines 69--71.\<close>

fun check_secondary_prompts :: "pyval list \<Rightarrow> exn + unit" where
  "check_secondary_prompts [] = Inr ()"
| "check_secondary_prompts (s # ss) =
     (if s \<noteq> PNone \<and> \<not> isinstance_str s
      then Inl (ValidationError ''Secondary prompts must be strings.'')
      else check_secondary_prompts ss)"

text \<open>Lines 72--74.\<close>

fun check_web_searches :: "pyval list \<Rightarrow> exn + unit" where
  "check_web_searches [] = Inr ()"
| "check_web_searches (w # ws) =
     (if \<not> isinstance_bool w
      then Inl (ValidationError ''Web search flags must be boolean.'')
      else check_web_searches ws)"

text \<open>Lines 75--76.\<close>

definition check_timeout :: "pyval \<Rightarrow> exn + unit" where
  "check_timeout timeout =
     (if timeout \<noteq> PNone \<and> (\<not> isinstance_int timeout \<or> int_value timeout \<le> 0)
      then Inl (ValidationError ''Timeout must be a positive integer.'')
      else Inr ())"

text \<open>
  Lines 41--78: everything \<open>gpt\<close> does before the retry loop, in the order of the
  source.  The result is the exception raised, or the keyword arguments that every
  attempt of the loop passes to the delegate.
\<close>

definition gpt_validate ::
  "pyval \<Rightarrow> pyval \<Rightarrow> pyval \<Rightarrow> pyval \<Rightarrow> pyval \<Rightarrow> pyval \<Rightarrow> exn + chatgpt_call" where
  "gpt_validate prompt country secondaryPrompt webSearch sync timeout =
     (case normalize_prompts prompt of
        Inl e \<Rightarrow> Inl e
      | Inr prompts \<Rightarrow>
     if prompts = [] then Inl (ValidationError ''At least one prompt is required.'')
     else
     (case normalize (length prompts) country ''country'' of
        Inl e \<Rightarrow> Inl e
      | Inr countries \<Rightarrow>
     (case normalize (length prompts) secondaryPrompt ''secondary_prompt'' of
        Inl e \<Rightarrow> Inl e
      | Inr secondary_prompts \<Rightarrow>
     (case normalize (length prompts) webSearch ''web_search'' of
        Inl e \<Rightarrow> Inl e
      | Inr web_searches \<Rightarrow>
     (case check_countries countries of
        Inl e \<Rightarrow> Inl e
      | Inr _ \<Rightarrow>
     (case check_secondary_prompts secondary_prompts of
        Inl e \<Rightarrow> Inl e
      | Inr _ \<Rightarrow>
     (case check_web_searches web_searches of
        Inl e \<Rightarrow> Inl e
      | Inr _ \<Rightarrow>
     (case check_timeout timeout of
        Inl e \<Rightarrow> Inl e
      | Inr _ \<Rightarrow>
          Inr \<lparr> kw_prompts = prompts,
                kw_countries = countries,
                kw_additional_prompts = secondary_prompts,
                kw_web_searches = web_searches,
                kw_sync = sync,
                kw_timeout = py_or timeout (if truthy sync then PInt 65 else PInt 30) \<rparr>))))))))"

text \<open>
  Lines 81--97: \<open>for attempt in range(max_retries)\<close>, as recursion on the attempts
  still to come.  A return or a raise leaves the loop; \<open>continue\<close> is the recursive
  call.  A loop that runs out of attempts falls off the end of \<open>gpt\<close>, which then
  returns \<open>None\<close>: that is the result \<open>Inr None\<close>, a result of the delegate being
  \<open>Inr (Some r)\<close>.  The state is the delegate's state and the events so far.
\<close>

definition max_retries :: nat where
  "max_retries = 3"

fun gpt_loop ::
  "(chatgpt_call, 's, 'r) delegate \<Rightarrow> chatgpt_call \<Rightarrow> nat list \<Rightarrow> 's \<Rightarrow> event list
     \<Rightarrow> (exn + 'r option) \<times> 's \<times> event list" where
  "gpt_loop scrape_chatgpt call [] s tr = (Inr None, s, tr)"
| "gpt_loop scrape_chatgpt call (attempt # rest) s tr =
     (case scrape_chatgpt call s of
        (Inr r, s') \<Rightarrow> (Inr (Some r), s', tr @ [Scrape call])
      | (Inl e, s') \<Rightarrow>
          if is_APIError e then
            (if attempt < max_retries - 1
             then gpt_loop scrape_chatgpt call rest s' (tr @ [Scrape call, Sleep 2])
             else (Inl e, s', tr @ [Scrape call]))
          else (Inl e, s', tr @ [Scrape call]))"

definition gpt ::
  "(chatgpt_call, 's, 'r) delegate \<Rightarrow> pyval \<Rightarrow> pyval \<Rightarrow> pyval \<Rightarrow> pyval \<Rightarrow> pyval \<Rightarrow> pyval
     \<Rightarrow> 's \<Rightarrow> (exn + 'r option) \<times> 's \<times> event list" where
  "gpt scrape_chatgpt prompt country secondaryPrompt webSearch sync timeout s =
     (case gpt_validate prompt country secondaryPrompt webSearch sync timeout of
        Inl e \<Rightarrow> (Inl e, s, [])
      | Inr call \<Rightarrow> gpt_loop scrape_chatgpt call [0..<max_retries] s [])"

section \<open>\<open>Search.web\<close>\<close>

text \<open>
  \<open>str.strip()\<close> removes leading and trailing whitespace.  Among the code points
  below 256 the whitespace ones are 9--13, 28--32, 133 and 160.
\<close>

definition py_isspace :: "char \<Rightarrow> bool" where
  "py_isspace c =
     (let n = (of_char c :: nat)
      in (9 \<le> n \<and> n \<le> 13) \<or> (28 \<le> n \<and> n \<le> 32) \<or> n = 133 \<or> n = 160)"

definition strip :: "string \<Rightarrow> string" where
  "strip s = rev (dropWhile py_isspace (rev (dropWhile py_isspace s)))"

text \<open>Line 124: \<open>isinstance(q, str) and q.strip()\<close>, as a truth value.\<close>

fun nonblank_str :: "pyval \<Rightarrow> bool" where
  "nonblank_str (PStr s) = (strip s \<noteq> [])"
| "nonblank_str v = False"

text \<open>
  Lines 115--132, up to the call of the delegate: the defaults of \<open>zone\<close> and
  \<open>max_workers\<close> first, then the checks of \<open>query\<close>.
\<close>

definition web_validate ::
  "client \<Rightarrow> pyval \<Rightarrow> pyval \<Rightarrow> pyval \<Rightarrow> pyval \<Rightarrow> pyval \<Rightarrow> pyval \<Rightarrow> pyval \<Rightarrow> pyval \<Rightarrow> pyval
     \<Rightarrow> pyval \<Rightarrow> pyval \<Rightarrow> exn + search_call" where
  "web_validate c query search_engine zone response_format method country data_format
       async_request max_workers timeout parse =
     (let zone' = py_or zone (serp_zone c);
          max_workers' = py_or max_workers (DEFAULT_MAX_WORKERS c)
      in
      if \<not> truthy query
      then Inl (ValueError ''The 'query' parameter cannot be None or empty.'')
      else
        (case
           (case query of
              PStr q \<Rightarrow>
                if strip q = []
                then Inl (ValueError ''The 'query' string cannot be empty or whitespace.'')
                else Inr ()
            | PList qs \<Rightarrow>
                if \<not> list_all nonblank_str qs
                then Inl (ValueError ''All queries in the list must be non-empty strings.'')
                else Inr ()
            | _ \<Rightarrow>
                Inl (TypeError
                  ''The 'query' parameter must be a string or a list of strings.''))
         of
           Inl e \<Rightarrow> Inl e
         | Inr _ \<Rightarrow>
             Inr \<lparr> arg_query = query,
                   arg_search_engine = search_engine,
                   arg_zone = zone',
                   arg_response_format = response_format,
                   arg_method = method,
                   arg_country = country,
                   arg_data_format = data_format,
                   arg_async_request = async_request,
                   arg_max_workers = max_workers',
                   arg_timeout = timeout,
                   arg_parse = parse \<rparr>))"

definition web ::
  "client \<Rightarrow> (search_call, 's, 'r) delegate
     \<Rightarrow> pyval \<Rightarrow> pyval \<Rightarrow> pyval \<Rightarrow> pyval \<Rightarrow> pyval \<Rightarrow> pyval \<Rightarrow> pyval \<Rightarrow> pyval \<Rightarrow> pyval
     \<Rightarrow> pyval \<Rightarrow> pyval \<Rightarrow> 's \<Rightarrow> (exn + 'r) \<times> 's \<times> event list" where
  "web c search query search_engine zone response_format method country data_format
       async_request max_workers timeout parse s =
     (case web_validate c query search_engine zone response_format method country
             data_format async_request max_workers timeout parse of
        Inl e \<Rightarrow> (Inl e, s, [])
      | Inr call \<Rightarrow>
          (case search call s of (res, s') \<Rightarrow> (res, s', [SearchCall call])))"

section \<open>A collaborator for concrete runs\<close>

text \<open>
  To run \<open>gpt\<close> and \<open>web\<close> on concrete arguments a collaborator is needed.  This
  one returns \<open>r\<close> at every call, and its state is the number of calls made so far.
\<close>

definition answering :: "'r \<Rightarrow> ('c, nat, 'r) delegate" where
  "answering r call n = (Inr r, Suc n)"

section \<open>Well-typed countries\<close>

text \<open>
  \<open>country\<close> is annotated \<open>Union[str, List[str]]\<close> with default \<open>None\<close>, and
  \<open>gpt\<close> never tests its type: line 67 hands every true entry to \<open>re.match\<close>,
  which raises \<open>TypeError\<close> on anything but a \<open>str\<close>.  The predicate below holds
  when that cannot happen: every true entry of \<open>country\<close> (or \<open>country\<close> itself,
  when it is not a list) is a \<open>str\<close>.  It is a hypothesis of theorems that say
  which exception class \<open>gpt\<close> raises.
\<close>

definition country_strs :: "pyval \<Rightarrow> bool" where
  "country_strs country =
     (case country of
        PList cs \<Rightarrow> list_all (\<lambda>c. truthy c \<longrightarrow> isinstance_str c) cs
      | c \<Rightarrow> truthy c \<longrightarrow> isinstance_str c)"

section \<open>Facts about the parts of \<open>gpt\<close>\<close>

lemmas gpt_validate_eval =
  gpt_validate_def normalize_prompts_def normalize_def check_timeout_def py_or_def
  upper_AZ_def

lemma attempts_eq: "[0..<max_retries] = [0, 1, 2]"
  by (simp add: max_retries_def upt_rec)

lemma is_ValidationError_iff: "is_ValidationError e \<longleftrightarrow> (\<exists>m. e = ValidationError m)"
  by (cases e) simp_all

lemma normalize_Inl:
  "normalize n param name = Inl e \<Longrightarrow> is_ValidationError e"
  by (auto simp: normalize_def split: pyval.splits if_splits)

lemma normalize_length:
  "normalize n param name = Inr xs \<Longrightarrow> length xs = n"
  by (auto simp: normalize_def split: pyval.splits if_splits)

lemma normalize_scalar:
  "\<not> isinstance_list param \<Longrightarrow> normalize n param name = Inr (replicate n param)"
  by (cases param) (simp_all add: normalize_def)

lemma normalize_mismatch:
  "length xs \<noteq> n \<Longrightarrow>
   normalize n (PList xs) name =
     Inl (ValidationError (name @ '' list must have the same length as prompts.''))"
  by (simp add: normalize_def)

lemma normalize_prompts_Inl:
  "normalize_prompts prompt = Inl e \<Longrightarrow> is_ValidationError e"
  by (auto simp: normalize_prompts_def split: pyval.splits if_splits)

lemma check_countries_Inl:
  "list_all (\<lambda>c. truthy c \<longrightarrow> isinstance_str c) cs \<Longrightarrow> check_countries cs = Inl e
     \<Longrightarrow> is_ValidationError e"
proof (induction cs)
  case Nil
  then show ?case by simp
next
  case (Cons c cs)
  show ?case
  proof (cases "truthy c")
    case False
    with Cons show ?thesis by simp
  next
    case True
    with Cons.prems obtain s where "c = PStr s" by (cases c) simp_all
    with Cons True show ?thesis by (auto split: if_splits)
  qed
qed

lemma normalize_country_strs:
  "country_strs country \<Longrightarrow> normalize n country name = Inr cs
     \<Longrightarrow> list_all (\<lambda>c. truthy c \<longrightarrow> isinstance_str c) cs"
  by (cases country) (auto simp: country_strs_def normalize_def list_all_iff split: if_splits)

lemma check_secondary_prompts_Inl:
  "check_secondary_prompts ss = Inl e \<Longrightarrow> is_ValidationError e"
  by (induction ss) (auto split: if_splits)

lemma check_secondary_prompts_Inr:
  "check_secondary_prompts ss = Inr u \<Longrightarrow> list_all (\<lambda>s. s = PNone \<or> isinstance_str s) ss"
  by (induction ss) (auto split: if_splits)

lemma check_web_searches_Inl:
  "check_web_searches ws = Inl e \<Longrightarrow> is_ValidationError e"
  by (induction ws) (auto split: if_splits)

lemma check_web_searches_Inr:
  "check_web_searches ws = Inr u \<Longrightarrow> list_all isinstance_bool ws"
  by (induction ws) (auto split: if_splits)

lemma check_timeout_Inl:
  "check_timeout t = Inl e \<Longrightarrow> is_ValidationError e"
  by (auto simp: check_timeout_def split: if_splits)

text \<open>What a call that passes every check went through.\<close>

lemma gpt_validate_Inr:
  assumes "gpt_validate prompt country secondaryPrompt webSearch sync timeout = Inr call"
  shows "normalize_prompts prompt = Inr (kw_prompts call)"
    and "kw_prompts call \<noteq> []"
    and "normalize (length (kw_prompts call)) country ''country'' = Inr (kw_countries call)"
    and "normalize (length (kw_prompts call)) secondaryPrompt ''secondary_prompt''
           = Inr (kw_additional_prompts call)"
    and "normalize (length (kw_prompts call)) webSearch ''web_search''
           = Inr (kw_web_searches call)"
    and "check_countries (kw_countries call) = Inr ()"
    and "check_secondary_prompts (kw_additional_prompts call) = Inr ()"
    and "check_web_searches (kw_web_searches call) = Inr ()"
    and "check_timeout timeout = Inr ()"
    and "kw_sync call = sync"
    and "kw_timeout call = py_or timeout (if truthy sync then PInt 65 else PInt 30)"
  using assms
  by (auto simp: gpt_validate_def split: sum.splits if_splits)

text \<open>With well-typed countries, the only exception of the checks is \<open>ValidationError\<close>.\<close>

lemma gpt_validate_Inl:
  assumes "country_strs country"
    and "gpt_validate prompt country secondaryPrompt webSearch sync timeout = Inl e"
  shows "is_ValidationError e"
  using assms
  by (auto simp: gpt_validate_def split: sum.splits if_splits
           dest: normalize_prompts_Inl normalize_Inl check_secondary_prompts_Inl
                 check_web_searches_Inl check_timeout_Inl
                 check_countries_Inl [OF normalize_country_strs])

lemma gpt_Inl:
  "gpt_validate prompt country secondaryPrompt webSearch sync timeout = Inl e \<Longrightarrow>
   gpt d prompt country secondaryPrompt webSearch sync timeout s = (Inl e, s, [])"
  by (simp add: gpt_def)

lemma gpt_Inr:
  "gpt_validate prompt country secondaryPrompt webSearch sync timeout = Inr call \<Longrightarrow>
   gpt d prompt country secondaryPrompt webSearch sync timeout s
     = gpt_loop d call [0..<max_retries] s []"
  by (simp add: gpt_def)

text \<open>The loop over \<open>range(3)\<close>, attempt by attempt.\<close>

lemma gpt_loop_unrolled:
  "gpt_loop d call [0..<max_retries] s0 [] =
     (case d call s0 of
        (Inr r, s1) \<Rightarrow> (Inr (Some r), s1, [Scrape call])
      | (Inl e1, s1) \<Rightarrow>
          if \<not> is_APIError e1 then (Inl e1, s1, [Scrape call])
          else
            (case d call s1 of
               (Inr r, s2) \<Rightarrow> (Inr (Some r), s2, [Scrape call, Sleep 2, Scrape call])
             | (Inl e2, s2) \<Rightarrow>
                 if \<not> is_APIError e2
                 then (Inl e2, s2, [Scrape call, Sleep 2, Scrape call])
                 else
                   (case d call s2 of
                      (Inr r, s3) \<Rightarrow>
                        (Inr (Some r), s3,
                         [Scrape call, Sleep 2, Scrape call, Sleep 2, Scrape call])
                    | (Inl e3, s3) \<Rightarrow>
                        (Inl e3, s3,
                         [Scrape call, Sleep 2, Scrape call, Sleep 2, Scrape call]))))"
  unfolding attempts_eq
  by (simp add: max_retries_def split: prod.splits sum.splits)

section \<open>The example call and the retry loop\<close>

text \<open>
  C1.  The call \<open>gpt(prompt=["hi","bye"], country="US", webSearch=[True, False])\<close>,
  the other parameters at their defaults (\<open>secondaryPrompt=None\<close>, \<open>sync=True\<close>,
  \<open>timeout=None\<close>), calls the delegate with \<open>prompts=["hi","bye"]\<close>,
  \<open>countries=["US","US"]\<close>, \<open>additional_prompts=[None, None]\<close>,
  \<open>web_searches=[True, False]\<close>, \<open>sync=True\<close> and \<open>timeout=65\<close>.  When the delegate
  returns \<open>r\<close> from that call, it has been called once, nothing else has happened,
  and \<open>gpt\<close> returns \<open>r\<close>.
\<close>

theorem gpt_example_delegate_call:
  assumes "scrape_chatgpt
             \<lparr> kw_prompts = [PStr ''hi'', PStr ''bye''],
               kw_countries = [PStr ''US'', PStr ''US''],
               kw_additional_prompts = [PNone, PNone],
               kw_web_searches = [PBool True, PBool False],
               kw_sync = PBool True,
               kw_timeout = PInt 65 \<rparr> s = (Inr r, s')"
  shows "gpt scrape_chatgpt (PList [PStr ''hi'', PStr ''bye'']) (PStr ''US'') PNone
           (PList [PBool True, PBool False]) (PBool True) PNone s
         = (Inr (Some r), s',
            [Scrape \<lparr> kw_prompts = [PStr ''hi'', PStr ''bye''],
                      kw_countries = [PStr ''US'', PStr ''US''],
                      kw_additional_prompts = [PNone, PNone],
                      kw_web_searches = [PBool True, PBool False],
                      kw_sync = PBool True,
                      kw_timeout = PInt 65 \<rparr>])"
proof -
  have "gpt_validate (PList [PStr ''hi'', PStr ''bye'']) (PStr ''US'') PNone
           (PList [PBool True, PBool False]) (PBool True) PNone
        = Inr \<lparr> kw_prompts = [PStr ''hi'', PStr ''bye''],
                kw_countries = [PStr ''US'', PStr ''US''],
                kw_additional_prompts = [PNone, PNone],
                kw_web_searches = [PBool True, PBool False],
                kw_sync = PBool True,
                kw_timeout = PInt 65 \<rparr>"
    by (simp add: gpt_validate_eval)
  then show ?thesis
    using assms by (simp add: gpt_Inr gpt_loop_unrolled)
qed

text \<open>A delegate that counts its calls and always answers.\<close>

theorem gpt_example_delegate_call_witness:
  "(\<lambda>call n. (Inr (PStr ''answer''), Suc n))
       \<lparr> kw_prompts = [PStr ''hi'', PStr ''bye''],
         kw_countries = [PStr ''US'', PStr ''US''],
         kw_additional_prompts = [PNone, PNone],
         kw_web_searches = [PBool True, PBool False],
         kw_sync = PBool True,
         kw_timeout = PInt 65 \<rparr> (0::nat) = (Inr (PStr ''answer''), 1)
   \<and> gpt (\<lambda>call n. (Inr (PStr ''answer''), Suc n))
         (PList [PStr ''hi'', PStr ''bye'']) (PStr ''US'') PNone
         (PList [PBool True, PBool False]) (PBool True) PNone (0::nat)
       = (Inr (Some (PStr ''answer'')), 1,
          [Scrape \<lparr> kw_prompts = [PStr ''hi'', PStr ''bye''],
                    kw_countries = [PStr ''US'', PStr ''US''],
                    kw_additional_prompts = [PNone, PNone],
                    kw_web_searches = [PBool True, PBool False],
                    kw_sync = PBool True,
                    kw_timeout = PInt 65 \<rparr>])"
  using gpt_example_delegate_call
    [of "\<lambda>call n. (Inr (PStr ''answer''), Suc n)" "0::nat" "PStr ''answer''" "1::nat"]
  by simp

text \<open>
  C2.  Once the checks have passed, \<open>gpt\<close> calls the delegate at most three times,
  always with the same arguments.  An attempt that returns ends the call with that
  result.  An attempt that raises anything but \<open>APIError\<close> ends the call with that
  exception, with no sleep and no further attempt.  A first or second attempt that
  raises \<open>APIError\<close> is followed by a sleep of 2 seconds and the next attempt.  A
  third attempt that raises \<open>APIError\<close> ends the call with that same exception:
  there is no fourth attempt and no sleep after it.  So two \<open>APIError\<close>s followed by
  a result give that result after exactly two sleeps of 2 seconds.
\<close>

theorem gpt_retry_policy:
  assumes "gpt_validate prompt country secondaryPrompt webSearch sync timeout = Inr call"
  shows "gpt scrape_chatgpt prompt country secondaryPrompt webSearch sync timeout s0 =
     (case scrape_chatgpt call s0 of
        (Inr r, s1) \<Rightarrow> (Inr (Some r), s1, [Scrape call])
      | (Inl e1, s1) \<Rightarrow>
          if \<not> is_APIError e1 then (Inl e1, s1, [Scrape call])
          else
            (case scrape_chatgpt call s1 of
               (Inr r, s2) \<Rightarrow> (Inr (Some r), s2, [Scrape call, Sleep 2, Scrape call])
             | (Inl e2, s2) \<Rightarrow>
                 if \<not> is_APIError e2
                 then (Inl e2, s2, [Scrape call, Sleep 2, Scrape call])
                 else
                   (case scrape_chatgpt call s2 of
                      (Inr r, s3) \<Rightarrow>
                        (Inr (Some r), s3,
                         [Scrape call, Sleep 2, Scrape call, Sleep 2, Scrape call])
                    | (Inl e3, s3) \<Rightarrow>
                        (Inl e3, s3,
                         [Scrape call, Sleep 2, Scrape call, Sleep 2, Scrape call]))))"
  using assms by (simp only: gpt_Inr gpt_loop_unrolled)

text \<open>
  Three delegates whose state counts their calls: one raises \<open>APIError\<close> twice and
  then answers, one raises a different \<open>APIError\<close> at every call, one raises
  another exception.
\<close>

theorem gpt_retry_policy_witness:
  "gpt_validate (PStr ''hi'') PNone PNone (PBool False) (PBool True) PNone
     = Inr \<lparr> kw_prompts = [PStr ''hi''], kw_countries = [PNone],
             kw_additional_prompts = [PNone], kw_web_searches = [PBool False],
             kw_sync = PBool True, kw_timeout = PInt 65 \<rparr>
   \<and> gpt (\<lambda>call n. (if n < 2 then Inl (APIError ''busy'') else Inr (PStr ''answer''), Suc n))
         (PStr ''hi'') PNone PNone (PBool False) (PBool True) PNone (0::nat)
       = (Inr (Some (PStr ''answer'')), 3,
          [Scrape \<lparr> kw_prompts = [PStr ''hi''], kw_countries = [PNone],
                    kw_additional_prompts = [PNone], kw_web_searches = [PBool False],
                    kw_sync = PBool True, kw_timeout = PInt 65 \<rparr>,
           Sleep 2,
           Scrape \<lparr> kw_prompts = [PStr ''hi''], kw_countries = [PNone],
                    kw_additional_prompts = [PNone], kw_web_searches = [PBool False],
                    kw_sync = PBool True, kw_timeout = PInt 65 \<rparr>,
           Sleep 2,
           Scrape \<lparr> kw_prompts = [PStr ''hi''], kw_countries = [PNone],
                    kw_additional_prompts = [PNone], kw_web_searches = [PBool False],
                    kw_sync = PBool True, kw_timeout = PInt 65 \<rparr>])
   \<and> gpt (\<lambda>call n. (Inl (APIError (if n = 0 then ''first'' else if n = 1 then ''second''
                                       else if n = 2 then ''third'' else ''fourth''))
                        :: exn + pyval, Suc n))
         (PStr ''hi'') PNone PNone (PBool False) (PBool True) PNone (0::nat)
       = (Inl (APIError ''third''), 3,
          [Scrape \<lparr> kw_prompts = [PStr ''hi''], kw_countries = [PNone],
                    kw_additional_prompts = [PNone], kw_web_searches = [PBool False],
                    kw_sync = PBool True, kw_timeout = PInt 65 \<rparr>,
           Sleep 2,
           Scrape \<lparr> kw_prompts = [PStr ''hi''], kw_countries = [PNone],
                    kw_additional_prompts = [PNone], kw_web_searches = [PBool False],
                    kw_sync = PBool True, kw_timeout = PInt 65 \<rparr>,
           Sleep 2,
           Scrape \<lparr> kw_prompts = [PStr ''hi''], kw_countries = [PNone],
                    kw_additional_prompts = [PNone], kw_web_searches = [PBool False],
                    kw_sync = PBool True, kw_timeout = PInt 65 \<rparr>])
   \<and> gpt (\<lambda>call n. (Inl (OtherException ''boom'') :: exn + pyval, Suc n))
         (PStr ''hi'') PNone PNone (PBool False) (PBool True) PNone (0::nat)
       = (Inl (OtherException ''boom''), 1,
          [Scrape \<lparr> kw_prompts = [PStr ''hi''], kw_countries = [PNone],
                    kw_additional_prompts = [PNone], kw_web_searches = [PBool False],
                    kw_sync = PBool True, kw_timeout = PInt 65 \<rparr>])"
proof -
  have v: "gpt_validate (PStr ''hi'') PNone PNone (PBool False) (PBool True) PNone
     = Inr \<lparr> kw_prompts = [PStr ''hi''], kw_countries = [PNone],
             kw_additional_prompts = [PNone], kw_web_searches = [PBool False],
             kw_sync = PBool True, kw_timeout = PInt 65 \<rparr>"
    by (simp add: gpt_validate_eval)
  show ?thesis
    using v
      gpt_retry_policy [OF v,
        of "\<lambda>call n. (if n < 2 then Inl (APIError ''busy'') else Inr (PStr ''answer''), Suc n)"
           "0::nat"]
      gpt_retry_policy [OF v,
        of "\<lambda>call n. (Inl (APIError (if n = 0 then ''first'' else if n = 1 then ''second''
                                       else if n = 2 then ''third'' else ''fourth''))
                        :: exn + pyval, Suc n)" "0::nat"]
      gpt_retry_policy [OF v,
        of "\<lambda>call n. (Inl (OtherException ''boom'') :: exn + pyval, Suc n)" "0::nat"]
    by simp
qed

section \<open>Further facts about the checks of \<open>gpt\<close>\<close>

text \<open>Which prompt arguments are refused, and what the accepted ones look like.\<close>

lemma gpt_rejects_prompt_shapes:
  assumes "prompt = PList []
           \<or> (\<exists>ps. prompt = PList ps \<and> \<not> list_all isinstance_str ps)
           \<or> (\<not> isinstance_str prompt \<and> \<not> isinstance_list prompt)"
  shows "\<exists>m. gpt scrape_chatgpt prompt country secondaryPrompt webSearch sync timeout s
           = (Inl (ValidationError m), s, [])"
proof -
  have "\<exists>m. gpt_validate prompt country secondaryPrompt webSearch sync timeout
          = Inl (ValidationError m)"
    using assms
    by (cases prompt) (auto simp: gpt_validate_def normalize_prompts_def)
  then show ?thesis by (auto simp: gpt_Inl)
qed

lemma gpt_accepted_prompts:
  assumes "gpt_validate prompt country secondaryPrompt webSearch sync timeout = Inr call"
  shows "kw_prompts call \<noteq> [] \<and> list_all isinstance_str (kw_prompts call)
         \<and> (prompt = PList (kw_prompts call)
              \<or> (isinstance_str prompt \<and> kw_prompts call = [prompt]))"
proof -
  define ps where "ps = kw_prompts call"
  from gpt_validate_Inr(1,2) [OF assms]
  have "normalize_prompts prompt = Inr ps" and "ps \<noteq> []"
    by (simp_all add: ps_def)
  then have "ps \<noteq> [] \<and> list_all isinstance_str ps
         \<and> (prompt = PList ps \<or> (isinstance_str prompt \<and> ps = [prompt]))"
    by (cases prompt) (auto simp: normalize_prompts_def split: if_splits)
  then show ?thesis by (simp add: ps_def)
qed

text \<open>
  The strings that the country pattern matches, the check of a single \<open>str\<close> entry,
  and the examples \<open>"us"\<close>, \<open>"USA"\<close>, \<open>"1A"\<close> (refused), \<open>"US"\<close> and \<open>""\<close>
  (accepted).  A non-empty \<open>str\<close> given as \<open>country\<close> that the pattern does not
  match ends the call with \<open>ValidationError\<close>, before any call of the delegate.
\<close>

lemma match_AZ2_iff:
  "match_AZ2 s \<longleftrightarrow>
     (\<exists>a b. upper_AZ a \<and> upper_AZ b \<and> (s = [a, b] \<or> s = [a, b, CHR 0x0A]))"
  by (cases s rule: match_AZ2.cases) auto

lemma check_countries_str:
  "check_countries [PStr s] =
     (if s = [] \<or> match_AZ2 s then Inr ()
      else Inl (ValidationError
        (''Invalid country code '' @ [CHR 0x27] @ s @ [CHR 0x27]
           @ ''. Must be 2 uppercase letters.'')))"
  by auto

lemma gpt_country_examples:
  "\<exists>m. gpt_validate (PStr ''hi'') (PStr ''us'') PNone (PBool False) (PBool True) PNone
         = Inl (ValidationError m)"
  "\<exists>m. gpt_validate (PStr ''hi'') (PStr ''USA'') PNone (PBool False) (PBool True) PNone
         = Inl (ValidationError m)"
  "\<exists>m. gpt_validate (PStr ''hi'') (PStr ''1A'') PNone (PBool False) (PBool True) PNone
         = Inl (ValidationError m)"
  "\<exists>call. gpt_validate (PStr ''hi'') (PStr ''US'') PNone (PBool False) (PBool True) PNone
         = Inr call"
  "\<exists>call. gpt_validate (PStr ''hi'') (PStr []) PNone (PBool False) (PBool True) PNone
         = Inr call"
  by (simp_all add: gpt_validate_eval)

lemma gpt_country_str:
  assumes "s \<noteq> []" and "\<not> match_AZ2 s"
  shows "\<exists>m. gpt scrape_chatgpt prompt (PStr s) secondaryPrompt webSearch sync timeout st
           = (Inl (ValidationError m), st, [])"
proof -
  have cs: "country_strs (PStr s)" by (simp add: country_strs_def)
  have "\<exists>e. gpt_validate prompt (PStr s) secondaryPrompt webSearch sync timeout = Inl e"
  proof (cases "gpt_validate prompt (PStr s) secondaryPrompt webSearch sync timeout")
    case (Inl e) then show ?thesis by simp
  next
    case (Inr call)
    define ps cs where "ps = kw_prompts call" and "cs = kw_countries call"
    from gpt_validate_Inr(2,3,6) [OF Inr]
    have "ps \<noteq> []" and "normalize (length ps) (PStr s) ''country'' = Inr cs"
      and "check_countries cs = Inr ()"
      by (simp_all add: ps_def cs_def)
    with assms have False
      by (cases ps) (auto simp: normalize_def split: if_splits)
    then show ?thesis ..
  qed
  then obtain e where e: "gpt_validate prompt (PStr s) secondaryPrompt webSearch sync timeout = Inl e"
    by blast
  with gpt_validate_Inl [OF cs e] show ?thesis
    by (auto simp: gpt_Inl is_ValidationError_iff)
qed

text \<open>
  Without the hypothesis on the countries, the checks can also end with the
  \<open>TypeError\<close> of \<open>re.match\<close>, as for \<open>country=5\<close>; the delegate is not
  called then either.
\<close>

lemma check_countries_Inl_cases:
  "check_countries cs = Inl e \<Longrightarrow> is_ValidationError e \<or> is_TypeError e"
proof (induction cs)
  case Nil
  then show ?case by simp
next
  case (Cons c cs)
  then show ?case
    by (cases c) (auto split: if_splits)
qed

lemma gpt_validate_Inl_cases:
  assumes "gpt_validate prompt country secondaryPrompt webSearch sync timeout = Inl e"
  shows "is_ValidationError e \<or> (is_TypeError e \<and> \<not> country_strs country)"
proof (cases "country_strs country")
  case True
  from gpt_validate_Inl [OF True assms] show ?thesis by simp
next
  case False
  have "is_ValidationError e \<or> is_TypeError e"
    using assms
    by (auto simp: gpt_validate_def split: sum.splits if_splits
             dest: normalize_prompts_Inl normalize_Inl check_secondary_prompts_Inl
                   check_web_searches_Inl check_timeout_Inl check_countries_Inl_cases)
  with False show ?thesis by simp
qed

lemma gpt_country_not_str:
  "\<exists>m. gpt scrape_chatgpt (PStr ''hi'') (PInt 5) PNone (PBool False) (PBool True) PNone s
     = (Inl (TypeError m), s, [])"
  by (simp add: gpt_def gpt_validate_eval)

text \<open>The checks of a \<open>str\<close> query in \<open>web\<close>.\<close>

lemma web_blank_string:
  assumes "q \<noteq> []" and "strip q = []"
  shows "web c search (PStr q) search_engine zone response_format method country data_format
            async_request max_workers timeout parse s
          = (Inl (ValueError ''The 'query' string cannot be empty or whitespace.''), s, [])"
  using assms by (simp add: web_def web_validate_def Let_def)

lemma web_string_forwarded:
  assumes "strip q \<noteq> []"
  shows "web_validate c (PStr q) search_engine zone response_format method country
            data_format async_request max_workers timeout parse
          = Inr \<lparr> arg_query = PStr q, arg_search_engine = search_engine,
                 arg_zone = py_or zone (serp_zone c),
                 arg_response_format = response_format, arg_method = method,
                 arg_country = country, arg_data_format = data_format,
                 arg_async_request = async_request,
                 arg_max_workers = py_or max_workers (DEFAULT_MAX_WORKERS c),
                 arg_timeout = timeout, arg_parse = parse \<rparr>"
proof -
  from assms have "q \<noteq> []" by (auto simp: strip_def)
  with assms show ?thesis by (simp add: web_validate_def Let_def)
qed

lemmas web_validate_eval =
  web_validate_def Let_def py_or_def strip_def py_isspace_def

section \<open>Properties of the checks of \<open>gpt\<close>\<close>

text \<open>
  C3.  When \<open>prompt\<close> is a list of length N and one of \<open>country\<close>,
  \<open>secondaryPrompt\<close>, \<open>webSearch\<close> is a list of another length, \<open>gpt\<close> raises
  \<open>ValidationError\<close>; the delegate has not been called (no event, its state
  unchanged).  This holds whatever the other arguments are.  In a call that passes
  the checks, a companion argument that is not a list has been replicated N times,
  N the number of prompts; \<open>None\<close> gives N times \<open>None\<close>.
\<close>

theorem gpt_companion_broadcast:
  "((\<exists>xs. country = PList xs \<and> length xs \<noteq> length ps)
      \<or> (\<exists>xs. secondaryPrompt = PList xs \<and> length xs \<noteq> length ps)
      \<or> (\<exists>xs. webSearch = PList xs \<and> length xs \<noteq> length ps)
    \<longrightarrow> (\<exists>m. gpt scrape_chatgpt (PList ps) country secondaryPrompt webSearch sync timeout s
               = (Inl (ValidationError m), s, [])))
   \<and> (gpt_validate prompt country secondaryPrompt webSearch sync timeout = Inr call
    \<longrightarrow> (\<not> isinstance_list country
           \<longrightarrow> kw_countries call = replicate (length (kw_prompts call)) country)
      \<and> (\<not> isinstance_list secondaryPrompt
           \<longrightarrow> kw_additional_prompts call
                 = replicate (length (kw_prompts call)) secondaryPrompt)
      \<and> (\<not> isinstance_list webSearch
           \<longrightarrow> kw_web_searches call = replicate (length (kw_prompts call)) webSearch))"
proof (intro conjI impI)
  assume mismatch:
    "(\<exists>xs. country = PList xs \<and> length xs \<noteq> length ps)
      \<or> (\<exists>xs. secondaryPrompt = PList xs \<and> length xs \<noteq> length ps)
      \<or> (\<exists>xs. webSearch = PList xs \<and> length xs \<noteq> length ps)"
  have "\<exists>m. gpt_validate (PList ps) country secondaryPrompt webSearch sync timeout
          = Inl (ValidationError m)"
  proof (cases "normalize_prompts (PList ps)")
    case (Inl e)
    then show ?thesis
      using normalize_prompts_Inl [OF Inl]
      by (auto simp: gpt_validate_def is_ValidationError_iff)
  next
    case (Inr prompts)
    then have p: "prompts = ps"
      by (auto simp: normalize_prompts_def split: if_splits)
    show ?thesis
    proof (cases "ps = []")
      case True
      with Inr p show ?thesis by (simp add: gpt_validate_def)
    next
      case False
      from mismatch have
        "(\<exists>e. normalize (length ps) country ''country'' = Inl e)
         \<or> (\<exists>e. normalize (length ps) secondaryPrompt ''secondary_prompt'' = Inl e)
         \<or> (\<exists>e. normalize (length ps) webSearch ''web_search'' = Inl e)"
        by (auto simp: normalize_mismatch)
      with Inr p False show ?thesis
        by (auto simp: gpt_validate_def is_ValidationError_iff [symmetric]
                 split: sum.splits dest: normalize_Inl)
    qed
  qed
  then show "\<exists>m. gpt scrape_chatgpt (PList ps) country secondaryPrompt webSearch sync timeout s
               = (Inl (ValidationError m), s, [])"
    by (auto simp: gpt_Inl)
next
  assume v: "gpt_validate prompt country secondaryPrompt webSearch sync timeout = Inr call"
    and "\<not> isinstance_list country"
  then show "kw_countries call = replicate (length (kw_prompts call)) country"
    using gpt_validate_Inr(3) [OF v] by (simp add: normalize_scalar)
next
  assume v: "gpt_validate prompt country secondaryPrompt webSearch sync timeout = Inr call"
    and "\<not> isinstance_list secondaryPrompt"
  then show "kw_additional_prompts call
                 = replicate (length (kw_prompts call)) secondaryPrompt"
    using gpt_validate_Inr(4) [OF v] by (simp add: normalize_scalar)
next
  assume v: "gpt_validate prompt country secondaryPrompt webSearch sync timeout = Inr call"
    and "\<not> isinstance_list webSearch"
  then show "kw_web_searches call = replicate (length (kw_prompts call)) webSearch"
    using gpt_validate_Inr(5) [OF v] by (simp add: normalize_scalar)
qed

text \<open>
  Lists of length 1, 3 and 0 against two prompts, and the scalars \<open>"US"\<close>, \<open>None\<close>
  and \<open>False\<close> broadcast over two prompts.
\<close>

theorem gpt_companion_broadcast_witness:
  "(\<exists>m. gpt (\<lambda>call n. (Inr (PStr ''answer''), Suc n))
          (PList [PStr ''hi'', PStr ''bye'']) (PList [PStr ''US'']) PNone (PBool False)
          (PBool True) PNone (0::nat)
        = (Inl (ValidationError m), 0, []))
   \<and> (\<exists>m. gpt (\<lambda>call n. (Inr (PStr ''answer''), Suc n))
          (PList [PStr ''hi'', PStr ''bye'']) PNone (PList [PStr ''a'', PStr ''b'', PStr ''c''])
          (PBool False) (PBool True) PNone (0::nat)
        = (Inl (ValidationError m), 0, []))
   \<and> (\<exists>m. gpt (\<lambda>call n. (Inr (PStr ''answer''), Suc n))
          (PList [PStr ''hi'', PStr ''bye'']) PNone PNone (PList [])
          (PBool True) PNone (0::nat)
        = (Inl (ValidationError m), 0, []))
   \<and> gpt_validate (PList [PStr ''hi'', PStr ''bye'']) (PStr ''US'') PNone (PBool False)
         (PBool True) PNone
       = Inr \<lparr> kw_prompts = [PStr ''hi'', PStr ''bye''],
               kw_countries = [PStr ''US'', PStr ''US''],
               kw_additional_prompts = [PNone, PNone],
               kw_web_searches = [PBool False, PBool False],
               kw_sync = PBool True, kw_timeout = PInt 65 \<rparr>
   \<and> kw_countries \<lparr> kw_prompts = [PStr ''hi'', PStr ''bye''],
               kw_countries = [PStr ''US'', PStr ''US''],
               kw_additional_prompts = [PNone, PNone],
               kw_web_searches = [PBool False, PBool False],
               kw_sync = PBool True, kw_timeout = PInt 65 \<rparr> = replicate 2 (PStr ''US'')
   \<and> kw_additional_prompts \<lparr> kw_prompts = [PStr ''hi'', PStr ''bye''],
               kw_countries = [PStr ''US'', PStr ''US''],
               kw_additional_prompts = [PNone, PNone],
               kw_web_searches = [PBool False, PBool False],
               kw_sync = PBool True, kw_timeout = PInt 65 \<rparr> = replicate 2 PNone
   \<and> kw_web_searches \<lparr> kw_prompts = [PStr ''hi'', PStr ''bye''],
               kw_countries = [PStr ''US'', PStr ''US''],
               kw_additional_prompts = [PNone, PNone],
               kw_web_searches = [PBool False, PBool False],
               kw_sync = PBool True, kw_timeout = PInt 65 \<rparr> = replicate 2 (PBool False)"
proof -
  have v: "gpt_validate (PList [PStr ''hi'', PStr ''bye'']) (PStr ''US'') PNone (PBool False)
         (PBool True) PNone
       = Inr \<lparr> kw_prompts = [PStr ''hi'', PStr ''bye''],
               kw_countries = [PStr ''US'', PStr ''US''],
               kw_additional_prompts = [PNone, PNone],
               kw_web_searches = [PBool False, PBool False],
               kw_sync = PBool True, kw_timeout = PInt 65 \<rparr>"
    by (simp add: gpt_validate_eval)
  show ?thesis
    using v
      gpt_companion_broadcast
        [of "PList [PStr ''US'']" "[PStr ''hi'', PStr ''bye'']" PNone "PBool False"
            "\<lambda>call n. (Inr (PStr ''answer''), Suc n)" "PBool True" PNone "0::nat"
            "PList [PStr ''hi'', PStr ''bye'']"]
      gpt_companion_broadcast
        [of PNone "[PStr ''hi'', PStr ''bye'']" "PList [PStr ''a'', PStr ''b'', PStr ''c'']"
            "PBool False"
            "\<lambda>call n. (Inr (PStr ''answer''), Suc n)" "PBool True" PNone "0::nat"
            "PList [PStr ''hi'', PStr ''bye'']"]
      gpt_companion_broadcast
        [of PNone "[PStr ''hi'', PStr ''bye'']" PNone "PList []"
            "\<lambda>call n. (Inr (PStr ''answer''), Suc n)" "PBool True" PNone "0::nat"
            "PList [PStr ''hi'', PStr ''bye'']"]
      gpt_companion_broadcast
        [of "PStr ''US''" "[PStr ''hi'', PStr ''bye'']" PNone "PBool False"
            "\<lambda>call n. (Inr (PStr ''answer''), Suc n)" "PBool True" PNone "0::nat"
            "PList [PStr ''hi'', PStr ''bye'']"]
    by (simp add: numeral_2_eq_2)
qed

text \<open>
  C4.  A prompt argument that is an empty list, a list with a non-string in it, or
  neither a string nor a list is refused with \<open>ValidationError\<close>
  (\<open>gpt_rejects_prompt_shapes\<close>), and the prompts of an accepted call are a non-empty
  list of strings (\<open>gpt_accepted_prompts\<close>).  The strings themselves are not
  looked at, although the message of line 46 asks for a non-empty string: the call
  \<open>gpt(prompt="")\<close> passes every check and the delegate is called with
  \<open>prompts=[""]\<close>, whatever the delegate does.
\<close>

theorem gpt_accepts_empty_prompt:
  "gpt_validate (PStr []) PNone PNone (PBool False) (PBool True) PNone
     = Inr \<lparr> kw_prompts = [PStr []], kw_countries = [PNone],
             kw_additional_prompts = [PNone], kw_web_searches = [PBool False],
             kw_sync = PBool True, kw_timeout = PInt 65 \<rparr>
   \<and> (\<exists>out s' rest.
        gpt scrape_chatgpt (PStr []) PNone PNone (PBool False) (PBool True) PNone s
          = (out, s',
             Scrape \<lparr> kw_prompts = [PStr []], kw_countries = [PNone],
                      kw_additional_prompts = [PNone], kw_web_searches = [PBool False],
                      kw_sync = PBool True, kw_timeout = PInt 65 \<rparr> # rest))"
proof -
  have v: "gpt_validate (PStr []) PNone PNone (PBool False) (PBool True) PNone
     = Inr \<lparr> kw_prompts = [PStr []], kw_countries = [PNone],
             kw_additional_prompts = [PNone], kw_web_searches = [PBool False],
             kw_sync = PBool True, kw_timeout = PInt 65 \<rparr>"
    by (simp add: gpt_validate_eval)
  show ?thesis
    unfolding gpt_Inr [OF v] gpt_loop_unrolled
    by (simp add: v split: prod.splits sum.splits)
qed

text \<open>
  C5.  Line 67 tests a true country entry with \<open>re.match(r"^[A-Z]{2}$", c)\<close>, and
  \<open>$\<close> also matches just before a final newline.  The entry made of \<open>U\<close>, \<open>S\<close>
  and a newline, which is three characters long, therefore passes, although the
  message of line 68 and the docstring ask for two uppercase letters: the call of
  \<open>gpt\<close> with \<open>prompt="hi"\<close> and that country passes every check, and the delegate
  is called with that entry as its only country, whatever the delegate does.
\<close>

theorem gpt_accepts_country_with_newline:
  "gpt_validate (PStr ''hi'') (PStr [CHR ''U'', CHR ''S'', CHR 0x0A]) PNone (PBool False)
       (PBool True) PNone
     = Inr \<lparr> kw_prompts = [PStr ''hi''],
             kw_countries = [PStr [CHR ''U'', CHR ''S'', CHR 0x0A]],
             kw_additional_prompts = [PNone], kw_web_searches = [PBool False],
             kw_sync = PBool True, kw_timeout = PInt 65 \<rparr>
   \<and> (\<exists>out s' rest.
        gpt scrape_chatgpt (PStr ''hi'') (PStr [CHR ''U'', CHR ''S'', CHR 0x0A]) PNone
            (PBool False) (PBool True) PNone s
          = (out, s',
             Scrape \<lparr> kw_prompts = [PStr ''hi''],
                      kw_countries = [PStr [CHR ''U'', CHR ''S'', CHR 0x0A]],
                      kw_additional_prompts = [PNone], kw_web_searches = [PBool False],
                      kw_sync = PBool True, kw_timeout = PInt 65 \<rparr> # rest))"
proof -
  have v: "gpt_validate (PStr ''hi'') (PStr [CHR ''U'', CHR ''S'', CHR 0x0A]) PNone
       (PBool False) (PBool True) PNone
     = Inr \<lparr> kw_prompts = [PStr ''hi''],
             kw_countries = [PStr [CHR ''U'', CHR ''S'', CHR 0x0A]],
             kw_additional_prompts = [PNone], kw_web_searches = [PBool False],
             kw_sync = PBool True, kw_timeout = PInt 65 \<rparr>"
    by (simp add: gpt_validate_eval)
  show ?thesis
    unfolding gpt_Inr [OF v] gpt_loop_unrolled
    by (simp add: v split: prod.splits sum.splits)
qed

text \<open>
  C6.  A \<open>timeout\<close> that is given (not \<open>None\<close>) and is not a positive integer, that
  is, not an instance of \<open>int\<close> with a value above 0, ends the call with
  \<open>ValidationError\<close> before any call of the delegate, for well-typed countries.
  Python's \<open>bool\<close> is a subclass of \<open>int\<close>, so \<open>True\<close> counts as the positive
  integer 1 here and \<open>False\<close> as 0.  When \<open>timeout\<close> is \<open>None\<close> and the checks
  pass, every attempt of \<open>gpt\<close> applies the delegate to the same keyword arguments,
  whose \<open>timeout\<close> is 65 if \<open>sync\<close> is true and 30 if not; the result, the
  delegate's state and the events are those of these applications.
\<close>

theorem gpt_timeout:
  "(timeout \<noteq> PNone \<and> \<not> (isinstance_int timeout \<and> 0 < int_value timeout)
      \<and> country_strs country
    \<longrightarrow> (\<exists>m. gpt scrape_chatgpt prompt country secondaryPrompt webSearch sync timeout s
               = (Inl (ValidationError m), s, [])))
   \<and> (gpt_validate prompt country secondaryPrompt webSearch sync PNone = Inr call
    \<longrightarrow> kw_timeout call = (if truthy sync then PInt 65 else PInt 30)
      \<and> gpt scrape_chatgpt prompt country secondaryPrompt webSearch sync PNone s =
          (case scrape_chatgpt call s of
             (Inr r, s1) \<Rightarrow> (Inr (Some r), s1, [Scrape call])
           | (Inl e1, s1) \<Rightarrow>
               if \<not> is_APIError e1 then (Inl e1, s1, [Scrape call])
               else
                 (case scrape_chatgpt call s1 of
                    (Inr r, s2) \<Rightarrow>
                      (Inr (Some r), s2, [Scrape call, Sleep 2, Scrape call])
                  | (Inl e2, s2) \<Rightarrow>
                      if \<not> is_APIError e2
                      then (Inl e2, s2, [Scrape call, Sleep 2, Scrape call])
                      else
                        (case scrape_chatgpt call s2 of
                           (Inr r, s3) \<Rightarrow>
                             (Inr (Some r), s3,
                              [Scrape call, Sleep 2, Scrape call, Sleep 2, Scrape call])
                         | (Inl e3, s3) \<Rightarrow>
                             (Inl e3, s3,
                              [Scrape call, Sleep 2, Scrape call, Sleep 2,
                               Scrape call])))))"
proof (intro conjI impI)
  assume a: "timeout \<noteq> PNone \<and> \<not> (isinstance_int timeout \<and> 0 < int_value timeout)
      \<and> country_strs country"
  have "\<exists>e. gpt_validate prompt country secondaryPrompt webSearch sync timeout = Inl e"
  proof (cases "gpt_validate prompt country secondaryPrompt webSearch sync timeout")
    case (Inl e) then show ?thesis by simp
  next
    case (Inr c)
    from gpt_validate_Inr(9) [OF Inr] a have False
      by (auto simp: check_timeout_def split: if_splits)
    then show ?thesis ..
  qed
  then obtain e
    where e: "gpt_validate prompt country secondaryPrompt webSearch sync timeout = Inl e"
    by blast
  from a have "country_strs country" by simp
  from gpt_validate_Inl [OF this e] e
  show "\<exists>m. gpt scrape_chatgpt prompt country secondaryPrompt webSearch sync timeout s
               = (Inl (ValidationError m), s, [])"
    by (auto simp: gpt_Inl is_ValidationError_iff)
next
  assume v: "gpt_validate prompt country secondaryPrompt webSearch sync PNone = Inr call"
  from gpt_validate_Inr(11) [OF v]
  show "kw_timeout call = (if truthy sync then PInt 65 else PInt 30)"
    by (simp add: py_or_def)
next
  assume v: "gpt_validate prompt country secondaryPrompt webSearch sync PNone = Inr call"
  show "gpt scrape_chatgpt prompt country secondaryPrompt webSearch sync PNone s =
          (case scrape_chatgpt call s of
             (Inr r, s1) \<Rightarrow> (Inr (Some r), s1, [Scrape call])
           | (Inl e1, s1) \<Rightarrow>
               if \<not> is_APIError e1 then (Inl e1, s1, [Scrape call])
               else
                 (case scrape_chatgpt call s1 of
                    (Inr r, s2) \<Rightarrow>
                      (Inr (Some r), s2, [Scrape call, Sleep 2, Scrape call])
                  | (Inl e2, s2) \<Rightarrow>
                      if \<not> is_APIError e2
                      then (Inl e2, s2, [Scrape call, Sleep 2, Scrape call])
                      else
                        (case scrape_chatgpt call s2 of
                           (Inr r, s3) \<Rightarrow>
                             (Inr (Some r), s3,
                              [Scrape call, Sleep 2, Scrape call, Sleep 2, Scrape call])
                         | (Inl e3, s3) \<Rightarrow>
                             (Inl e3, s3,
                              [Scrape call, Sleep 2, Scrape call, Sleep 2,
                               Scrape call]))))"
    using v by (simp only: gpt_Inr gpt_loop_unrolled)
qed

text \<open>
  The timeouts 0, -5 and \<open>"30"\<close>, and the calls with \<open>timeout=None\<close> for \<open>sync\<close>
  true and false: the delegate is called once, with 65 and with 30.
\<close>

theorem gpt_timeout_witness:
  "PInt 0 \<noteq> PNone \<and> \<not> (isinstance_int (PInt 0) \<and> 0 < int_value (PInt 0))
   \<and> country_strs (PStr ''US'')
   \<and> (\<exists>m. gpt (answering (PStr ''answer''))
            (PStr ''hi'') (PStr ''US'') PNone (PBool False) (PBool True) (PInt 0) 0
          = (Inl (ValidationError m), 0, []))
   \<and> (\<exists>m. gpt (answering (PStr ''answer''))
            (PStr ''hi'') (PStr ''US'') PNone (PBool False) (PBool True) (PInt (- 5)) 0
          = (Inl (ValidationError m), 0, []))
   \<and> (\<exists>m. gpt (answering (PStr ''answer''))
            (PStr ''hi'') (PStr ''US'') PNone (PBool False) (PBool True) (PStr ''30'') 0
          = (Inl (ValidationError m), 0, []))
   \<and> gpt_validate (PStr ''hi'') (PStr ''US'') PNone (PBool False) (PBool True) PNone
       = Inr \<lparr> kw_prompts = [PStr ''hi''], kw_countries = [PStr ''US''],
               kw_additional_prompts = [PNone], kw_web_searches = [PBool False],
               kw_sync = PBool True, kw_timeout = PInt 65 \<rparr>
   \<and> gpt (answering (PStr ''answer''))
         (PStr ''hi'') (PStr ''US'') PNone (PBool False) (PBool True) PNone 0
       = (Inr (Some (PStr ''answer'')), 1,
          [Scrape \<lparr> kw_prompts = [PStr ''hi''], kw_countries = [PStr ''US''],
               kw_additional_prompts = [PNone], kw_web_searches = [PBool False],
               kw_sync = PBool True, kw_timeout = PInt 65 \<rparr>])
   \<and> gpt_validate (PStr ''hi'') (PStr ''US'') PNone (PBool False) (PBool False) PNone
       = Inr \<lparr> kw_prompts = [PStr ''hi''], kw_countries = [PStr ''US''],
               kw_additional_prompts = [PNone], kw_web_searches = [PBool False],
               kw_sync = PBool False, kw_timeout = PInt 30 \<rparr>
   \<and> gpt (answering (PStr ''answer''))
         (PStr ''hi'') (PStr ''US'') PNone (PBool False) (PBool False) PNone 0
       = (Inr (Some (PStr ''answer'')), 1,
          [Scrape \<lparr> kw_prompts = [PStr ''hi''], kw_countries = [PStr ''US''],
               kw_additional_prompts = [PNone], kw_web_searches = [PBool False],
               kw_sync = PBool False, kw_timeout = PInt 30 \<rparr>])"
proof -
  have v1: "gpt_validate (PStr ''hi'') (PStr ''US'') PNone (PBool False) (PBool True) PNone
       = Inr \<lparr> kw_prompts = [PStr ''hi''], kw_countries = [PStr ''US''],
               kw_additional_prompts = [PNone], kw_web_searches = [PBool False],
               kw_sync = PBool True, kw_timeout = PInt 65 \<rparr>"
    by (simp add: gpt_validate_eval)
  have v2: "gpt_validate (PStr ''hi'') (PStr ''US'') PNone (PBool False) (PBool False) PNone
       = Inr \<lparr> kw_prompts = [PStr ''hi''], kw_countries = [PStr ''US''],
               kw_additional_prompts = [PNone], kw_web_searches = [PBool False],
               kw_sync = PBool False, kw_timeout = PInt 30 \<rparr>"
    by (simp add: gpt_validate_eval)
  have c: "country_strs (PStr ''US'')" by (simp add: country_strs_def)
  show ?thesis
    using v1 v2 c
      gpt_timeout [of "PInt 0" "PStr ''US''" "answering (PStr ''answer'')"
                      "PStr ''hi''" PNone "PBool False" "PBool True" "0::nat"]
      gpt_timeout [of "PInt (- 5)" "PStr ''US''" "answering (PStr ''answer'')"
                      "PStr ''hi''" PNone "PBool False" "PBool True" "0::nat"]
      gpt_timeout [of "PStr ''30''" "PStr ''US''" "answering (PStr ''answer'')"
                      "PStr ''hi''" PNone "PBool False" "PBool True" "0::nat"]
      gpt_timeout [of PNone "PStr ''US''" "answering (PStr ''answer'')"
                      "PStr ''hi''" PNone "PBool False" "PBool False" "0::nat"]
    by (simp add: answering_def)
qed

text \<open>
  C7.  When \<open>webSearch\<close> is a value other than a \<open>bool\<close> or a list, or a list with
  an entry that is not a \<open>bool\<close>, \<open>gpt\<close> raises \<open>ValidationError\<close> before any call
  of the delegate, for well-typed countries.  The test is on the type: the integer 1
  and the string \<open>"true"\<close> are refused, although both are true as truth values.
\<close>

theorem gpt_web_search_strict_bool:
  assumes "country_strs country"
    and "(\<not> isinstance_bool webSearch \<and> \<not> isinstance_list webSearch)
         \<or> (\<exists>ws. webSearch = PList ws \<and> \<not> list_all isinstance_bool ws)"
  shows "\<exists>m. gpt scrape_chatgpt prompt country secondaryPrompt webSearch sync timeout s
           = (Inl (ValidationError m), s, [])"
proof -
  have "\<exists>e. gpt_validate prompt country secondaryPrompt webSearch sync timeout = Inl e"
  proof (cases "gpt_validate prompt country secondaryPrompt webSearch sync timeout")
    case (Inl e) then show ?thesis by simp
  next
    case (Inr call)
    define ps ws where "ps = kw_prompts call" and "ws = kw_web_searches call"
    from gpt_validate_Inr(2,5,8) [OF Inr]
    have "ps \<noteq> []" and n: "normalize (length ps) webSearch ''web_search'' = Inr ws"
      and "check_web_searches ws = Inr ()"
      by (simp_all add: ps_def ws_def)
    then have "list_all isinstance_bool ws" and "length ps \<noteq> 0"
      by (auto dest: check_web_searches_Inr)
    with n assms(2) have False
      by (cases webSearch) (auto simp: normalize_def list_all_iff split: if_splits)
    then show ?thesis ..
  qed
  then obtain e
    where e: "gpt_validate prompt country secondaryPrompt webSearch sync timeout = Inl e"
    by blast
  from gpt_validate_Inl [OF assms(1) e] e show ?thesis
    by (auto simp: gpt_Inl is_ValidationError_iff)
qed

text \<open>The flags \<open>1\<close>, \<open>"true"\<close> and \<open>[True, 1]\<close>.\<close>

theorem gpt_web_search_strict_bool_witness:
  "country_strs PNone
   \<and> \<not> isinstance_bool (PInt 1) \<and> \<not> isinstance_list (PInt 1)
   \<and> (\<exists>m. gpt (\<lambda>call n. (Inr (PStr ''answer''), Suc n))
            (PStr ''hi'') PNone PNone (PInt 1) (PBool True) PNone (0::nat)
          = (Inl (ValidationError m), 0, []))
   \<and> \<not> isinstance_bool (PStr ''true'') \<and> \<not> isinstance_list (PStr ''true'')
   \<and> (\<exists>m. gpt (\<lambda>call n. (Inr (PStr ''answer''), Suc n))
            (PStr ''hi'') PNone PNone (PStr ''true'') (PBool True) PNone (0::nat)
          = (Inl (ValidationError m), 0, []))
   \<and> \<not> list_all isinstance_bool [PBool True, PInt 1]
   \<and> (\<exists>m. gpt (\<lambda>call n. (Inr (PStr ''answer''), Suc n))
            (PList [PStr ''hi'', PStr ''bye'']) PNone PNone (PList [PBool True, PInt 1])
            (PBool True) PNone (0::nat)
          = (Inl (ValidationError m), 0, []))"
proof -
  have c: "country_strs PNone" by (simp add: country_strs_def)
  show ?thesis
    using c
      gpt_web_search_strict_bool [OF c, of "PInt 1"
        "\<lambda>call n. (Inr (PStr ''answer''), Suc n)" "PStr ''hi''" PNone "PBool True" PNone
        "0::nat"]
      gpt_web_search_strict_bool [OF c, of "PStr ''true''"
        "\<lambda>call n. (Inr (PStr ''answer''), Suc n)" "PStr ''hi''" PNone "PBool True" PNone
        "0::nat"]
      gpt_web_search_strict_bool [OF c, of "PList [PBool True, PInt 1]"
        "\<lambda>call n. (Inr (PStr ''answer''), Suc n)" "PList [PStr ''hi'', PStr ''bye'']" PNone
        "PBool True" PNone "0::nat"]
    by simp
qed

text \<open>
  C9.  Every call of \<open>gpt\<close> goes one of two ways.  Either every check passes:
  then the delegate is applied one, two or three times to the same arguments, with
  a sleep of 2 seconds between two applications, and the result, the delegate's
  state and the events of \<open>gpt\<close> are those of this one sequence.  Or a check
  raises: then \<open>gpt\<close> ends with that exception, no event and the delegate's state
  unchanged, so that the loop, and with it the three attempts, is never entered.
  The exception of a check is a \<open>ValidationError\<close>, except for a country that is
  not well typed, where it can be the \<open>TypeError\<close> of \<open>re.match\<close>.
\<close>

theorem gpt_validation_precedes_delegate:
  "(\<exists>call. gpt_validate prompt country secondaryPrompt webSearch sync timeout = Inr call
       \<and> gpt scrape_chatgpt prompt country secondaryPrompt webSearch sync timeout s =
          (case scrape_chatgpt call s of
             (Inr r, s1) \<Rightarrow> (Inr (Some r), s1, [Scrape call])
           | (Inl e1, s1) \<Rightarrow>
               if \<not> is_APIError e1 then (Inl e1, s1, [Scrape call])
               else
                 (case scrape_chatgpt call s1 of
                    (Inr r, s2) \<Rightarrow>
                      (Inr (Some r), s2, [Scrape call, Sleep 2, Scrape call])
                  | (Inl e2, s2) \<Rightarrow>
                      if \<not> is_APIError e2
                      then (Inl e2, s2, [Scrape call, Sleep 2, Scrape call])
                      else
                        (case scrape_chatgpt call s2 of
                           (Inr r, s3) \<Rightarrow>
                             (Inr (Some r), s3,
                              [Scrape call, Sleep 2, Scrape call, Sleep 2, Scrape call])
                         | (Inl e3, s3) \<Rightarrow>
                             (Inl e3, s3,
                              [Scrape call, Sleep 2, Scrape call, Sleep 2,
                               Scrape call])))))
   \<or> (\<exists>e. gpt_validate prompt country secondaryPrompt webSearch sync timeout = Inl e
         \<and> (is_ValidationError e \<or> (is_TypeError e \<and> \<not> country_strs country))
         \<and> gpt scrape_chatgpt prompt country secondaryPrompt webSearch sync timeout s
             = (Inl e, s, []))"
proof (cases "gpt_validate prompt country secondaryPrompt webSearch sync timeout")
  case (Inl e)
  with gpt_validate_Inl_cases [OF Inl] show ?thesis
    by (simp add: gpt_Inl)
next
  case (Inr call)
  then have "gpt scrape_chatgpt prompt country secondaryPrompt webSearch sync timeout s
      = gpt_loop scrape_chatgpt call [0..<max_retries] s []"
    by (rule gpt_Inr)
  with Inr show ?thesis
    unfolding gpt_loop_unrolled by blast
qed

text \<open>
  A valid call with a delegate that raises \<open>APIError\<close> once and then answers, a
  call with an empty list of prompts, and a call with \<open>country=5\<close>.
\<close>

theorem gpt_validation_precedes_delegate_witness:
  "gpt_validate (PStr ''hi'') (PStr ''US'') PNone (PBool False) (PBool True) PNone
       = Inr \<lparr> kw_prompts = [PStr ''hi''], kw_countries = [PStr ''US''],
               kw_additional_prompts = [PNone], kw_web_searches = [PBool False],
               kw_sync = PBool True, kw_timeout = PInt 65 \<rparr>
   \<and> gpt (\<lambda>call n. (if n < 1 then Inl (APIError ''busy'')
                      else Inr (PStr ''answer''), Suc n))
          (PStr ''hi'') (PStr ''US'') PNone (PBool False) (PBool True) PNone (0::nat)
       = (Inr (Some (PStr ''answer'')), 2,
          [Scrape \<lparr> kw_prompts = [PStr ''hi''], kw_countries = [PStr ''US''],
               kw_additional_prompts = [PNone], kw_web_searches = [PBool False],
               kw_sync = PBool True, kw_timeout = PInt 65 \<rparr>,
           Sleep 2,
           Scrape \<lparr> kw_prompts = [PStr ''hi''], kw_countries = [PStr ''US''],
               kw_additional_prompts = [PNone], kw_web_searches = [PBool False],
               kw_sync = PBool True, kw_timeout = PInt 65 \<rparr>])
   \<and> gpt_validate (PList []) (PStr ''US'') PNone (PBool False) (PBool True) PNone
       = Inl (ValidationError ''At least one prompt is required.'')
   \<and> gpt (\<lambda>call n. (if n < 1 then Inl (APIError ''busy'')
                      else Inr (PStr ''answer''), Suc n))
          (PList []) (PStr ''US'') PNone (PBool False) (PBool True) PNone (0::nat)
       = (Inl (ValidationError ''At least one prompt is required.''), 0, [])
   \<and> \<not> country_strs (PInt 5)
   \<and> (\<exists>m. gpt_validate (PStr ''hi'') (PInt 5) PNone (PBool False) (PBool True) PNone
              = Inl (TypeError m)
          \<and> gpt (\<lambda>call n. (if n < 1 then Inl (APIError ''busy'')
                             else Inr (PStr ''answer''), Suc n))
              (PStr ''hi'') (PInt 5) PNone (PBool False) (PBool True) PNone (0::nat)
            = (Inl (TypeError m), 0, []))"
proof -
  have v1: "gpt_validate (PStr ''hi'') (PStr ''US'') PNone (PBool False) (PBool True) PNone
       = Inr \<lparr> kw_prompts = [PStr ''hi''], kw_countries = [PStr ''US''],
               kw_additional_prompts = [PNone], kw_web_searches = [PBool False],
               kw_sync = PBool True, kw_timeout = PInt 65 \<rparr>"
    by (simp add: gpt_validate_eval)
  have v2: "gpt_validate (PList []) (PStr ''US'') PNone (PBool False) (PBool True) PNone
       = Inl (ValidationError ''At least one prompt is required.'')"
    by (simp add: gpt_validate_eval)
  have v3: "\<exists>m. gpt_validate (PStr ''hi'') (PInt 5) PNone (PBool False) (PBool True) PNone
       = Inl (TypeError m)"
    by (simp add: gpt_validate_eval)
  have c: "\<not> country_strs (PInt 5)" by (simp add: country_strs_def)
  show ?thesis
    using c v1 v2 v3
      gpt_validation_precedes_delegate [of "PStr ''hi''" "PStr ''US''" PNone "PBool False"
        "PBool True" PNone
        "\<lambda>call n. (if n < 1 then Inl (APIError ''busy'') else Inr (PStr ''answer''), Suc n)"
        "0::nat"]
      gpt_validation_precedes_delegate [of "PList []" "PStr ''US''" PNone "PBool False"
        "PBool True" PNone
        "\<lambda>call n. (if n < 1 then Inl (APIError ''busy'') else Inr (PStr ''answer''), Suc n)"
        "0::nat"]
      gpt_validation_precedes_delegate [of "PStr ''hi''" "PInt 5" PNone "PBool False"
        "PBool True" PNone
        "\<lambda>call n. (if n < 1 then Inl (APIError ''busy'') else Inr (PStr ''answer''), Suc n)"
        "0::nat"]
    by auto
qed

section \<open>Properties of \<open>web\<close>\<close>

text \<open>
  C8.  The checks of \<open>query\<close> in \<open>web\<close> do not stop at three exceptions, and a
  query that is neither a string nor a list does not always get the \<open>TypeError\<close>.
  The string \<open>"   "\<close> is true as a truth value, so line 119 lets it pass, and
  line 122 raises a \<open>ValueError\<close> with a message of its own, which is none of the
  three.  The integer \<open>0\<close> is false as a truth value, so line 119 raises the
  \<open>ValueError\<close> for an empty query before the type is looked at.
\<close>

theorem web_query_three_kinds_counterexample:
  "web \<lparr> serp_zone = PStr ''sdk_serp'', DEFAULT_MAX_WORKERS = PInt 10 \<rparr>
       (answering (PStr ''results''))
       (PStr ''   '') (PStr ''google'') PNone (PStr ''raw'') (PStr ''GET'') (PStr [])
       (PStr ''html'') (PBool False) PNone PNone (PBool False) 0
     = (Inl (ValueError ''The 'query' string cannot be empty or whitespace.''), 0, [])
   \<and> ValueError ''The 'query' string cannot be empty or whitespace.''
       \<notin> {ValueError ''The 'query' parameter cannot be None or empty.'',
          TypeError ''The 'query' parameter must be a string or a list of strings.'',
          ValueError ''All queries in the list must be non-empty strings.''}
   \<and> \<not> isinstance_str (PInt 0) \<and> \<not> isinstance_list (PInt 0)
   \<and> web \<lparr> serp_zone = PStr ''sdk_serp'', DEFAULT_MAX_WORKERS = PInt 10 \<rparr>
       (answering (PStr ''results''))
       (PInt 0) (PStr ''google'') PNone (PStr ''raw'') (PStr ''GET'') (PStr [])
       (PStr ''html'') (PBool False) PNone PNone (PBool False) 0
     = (Inl (ValueError ''The 'query' parameter cannot be None or empty.''), 0, [])"
  by (simp add: web_def web_validate_eval)

text \<open>
  C8, as the code has it.  \<open>web\<close> ends in one of five ways, decided by \<open>query\<close>
  alone.  A query that is false as a truth value (\<open>""\<close>, \<open>None\<close>, also \<open>0\<close>)
  raises \<open>ValueError\<close> with the message of line 119.  A non-empty string of
  whitespace only raises \<open>ValueError\<close> with the message of line 122.  A true query
  that is neither a \<open>str\<close> nor a list (\<open>123\<close>) raises \<open>TypeError\<close>.  A non-empty
  list with an element that is not a string with a character other than whitespace
  (\<open>["", "ok"]\<close>) raises \<open>ValueError\<close> with the message of line 125.  These four
  exceptions differ from each other, and each is raised before the delegate is
  called (no event, its state unchanged).  A string with a character other than
  whitespace, or a non-empty list of such strings (\<open>["a","b"]\<close>), is passed to the
  delegate as it is, with the other arguments, and \<open>web\<close> returns what the
  delegate does.
\<close>

theorem web_query_outcomes:
  "(\<not> truthy query
    \<longrightarrow> web c search query search_engine zone response_format method country data_format
            async_request max_workers timeout parse s
          = (Inl (ValueError ''The 'query' parameter cannot be None or empty.''), s, []))
   \<and> (q \<noteq> [] \<and> strip q = []
    \<longrightarrow> web c search (PStr q) search_engine zone response_format method country data_format
            async_request max_workers timeout parse s
          = (Inl (ValueError ''The 'query' string cannot be empty or whitespace.''), s, []))
   \<and> (truthy query \<and> \<not> isinstance_str query \<and> \<not> isinstance_list query
    \<longrightarrow> web c search query search_engine zone response_format method country data_format
            async_request max_workers timeout parse s
          = (Inl (TypeError ''The 'query' parameter must be a string or a list of strings.''),
             s, []))
   \<and> (qs \<noteq> [] \<and> \<not> list_all nonblank_str qs
    \<longrightarrow> web c search (PList qs) search_engine zone response_format method country
            data_format async_request max_workers timeout parse s
          = (Inl (ValueError ''All queries in the list must be non-empty strings.''), s, []))
   \<and> ((\<exists>q'. query = PStr q' \<and> strip q' \<noteq> [])
        \<or> (\<exists>qs'. query = PList qs' \<and> qs' \<noteq> [] \<and> list_all nonblank_str qs')
    \<longrightarrow> web c search query search_engine zone response_format method country
            data_format async_request max_workers timeout parse s
          = (case search
               \<lparr> arg_query = query, arg_search_engine = search_engine,
                 arg_zone = py_or zone (serp_zone c),
                 arg_response_format = response_format, arg_method = method,
                 arg_country = country, arg_data_format = data_format,
                 arg_async_request = async_request,
                 arg_max_workers = py_or max_workers (DEFAULT_MAX_WORKERS c),
                 arg_timeout = timeout, arg_parse = parse \<rparr> s
             of (res, s') \<Rightarrow>
               (res, s',
                [SearchCall
                   \<lparr> arg_query = query, arg_search_engine = search_engine,
                     arg_zone = py_or zone (serp_zone c),
                     arg_response_format = response_format, arg_method = method,
                     arg_country = country, arg_data_format = data_format,
                     arg_async_request = async_request,
                     arg_max_workers = py_or max_workers (DEFAULT_MAX_WORKERS c),
                     arg_timeout = timeout, arg_parse = parse \<rparr>])))
   \<and> distinct
        [ValueError ''The 'query' parameter cannot be None or empty.'',
         ValueError ''The 'query' string cannot be empty or whitespace.'',
         TypeError ''The 'query' parameter must be a string or a list of strings.'',
         ValueError ''All queries in the list must be non-empty strings.'']"
proof (intro conjI impI)
  assume "\<not> truthy query"
  then show "web c search query search_engine zone response_format method country data_format
            async_request max_workers timeout parse s
          = (Inl (ValueError ''The 'query' parameter cannot be None or empty.''), s, [])"
    by (simp add: web_def web_validate_def Let_def)
next
  assume "q \<noteq> [] \<and> strip q = []"
  then show "web c search (PStr q) search_engine zone response_format method country
            data_format async_request max_workers timeout parse s
          = (Inl (ValueError ''The 'query' string cannot be empty or whitespace.''), s, [])"
    by (simp add: web_def web_validate_def Let_def)
next
  assume "truthy query \<and> \<not> isinstance_str query \<and> \<not> isinstance_list query"
  then show "web c search query search_engine zone response_format method country data_format
            async_request max_workers timeout parse s
          = (Inl (TypeError ''The 'query' parameter must be a string or a list of strings.''),
             s, [])"
    by (cases query) (simp_all add: web_def web_validate_def Let_def)
next
  assume "qs \<noteq> [] \<and> \<not> list_all nonblank_str qs"
  then show "web c search (PList qs) search_engine zone response_format method country
            data_format async_request max_workers timeout parse s
          = (Inl (ValueError ''All queries in the list must be non-empty strings.''), s, [])"
    by (simp add: web_def web_validate_def Let_def)
next
  assume a: "(\<exists>q'. query = PStr q' \<and> strip q' \<noteq> [])
        \<or> (\<exists>qs'. query = PList qs' \<and> qs' \<noteq> [] \<and> list_all nonblank_str qs')"
  have ne: "strip q' \<noteq> [] \<Longrightarrow> q' \<noteq> []" for q'
    by (auto simp: strip_def)
  from a show "web c search query search_engine zone response_format method country
            data_format async_request max_workers timeout parse s
          = (case search
               \<lparr> arg_query = query, arg_search_engine = search_engine,
                 arg_zone = py_or zone (serp_zone c),
                 arg_response_format = response_format, arg_method = method,
                 arg_country = country, arg_data_format = data_format,
                 arg_async_request = async_request,
                 arg_max_workers = py_or max_workers (DEFAULT_MAX_WORKERS c),
                 arg_timeout = timeout, arg_parse = parse \<rparr> s
             of (res, s') \<Rightarrow>
               (res, s',
                [SearchCall
                   \<lparr> arg_query = query, arg_search_engine = search_engine,
                     arg_zone = py_or zone (serp_zone c),
                     arg_response_format = response_format, arg_method = method,
                     arg_country = country, arg_data_format = data_format,
                     arg_async_request = async_request,
                     arg_max_workers = py_or max_workers (DEFAULT_MAX_WORKERS c),
                     arg_timeout = timeout, arg_parse = parse \<rparr>]))"
    by (auto simp: web_def web_validate_def Let_def dest: ne)
next
  show "distinct
        [ValueError ''The 'query' parameter cannot be None or empty.'',
         ValueError ''The 'query' string cannot be empty or whitespace.'',
         TypeError ''The 'query' parameter must be a string or a list of strings.'',
         ValueError ''All queries in the list must be non-empty strings.'']"
    by simp
qed

text \<open>
  The queries \<open>""\<close>, \<open>None\<close>, \<open>0\<close>, \<open>"   "\<close>, \<open>123\<close>, \<open>["", "ok"]\<close>,
  \<open>["   ", "ok"]\<close>, \<open>["a","b"]\<close> and \<open>"pizza"\<close>, the other parameters at their
  defaults.
\<close>

theorem web_query_outcomes_witness:
  "web \<lparr> serp_zone = PStr ''sdk_serp'', DEFAULT_MAX_WORKERS = PInt 10 \<rparr>
       (answering (PStr ''results''))
       (PStr []) (PStr ''google'') PNone (PStr ''raw'') (PStr ''GET'') (PStr [])
       (PStr ''html'') (PBool False) PNone PNone (PBool False) 0
     = (Inl (ValueError ''The 'query' parameter cannot be None or empty.''), 0, [])
   \<and> web \<lparr> serp_zone = PStr ''sdk_serp'', DEFAULT_MAX_WORKERS = PInt 10 \<rparr>
       (answering (PStr ''results''))
       PNone (PStr ''google'') PNone (PStr ''raw'') (PStr ''GET'') (PStr [])
       (PStr ''html'') (PBool False) PNone PNone (PBool False) 0
     = (Inl (ValueError ''The 'query' parameter cannot be None or empty.''), 0, [])
   \<and> web \<lparr> serp_zone = PStr ''sdk_serp'', DEFAULT_MAX_WORKERS = PInt 10 \<rparr>
       (answering (PStr ''results''))
       (PInt 0) (PStr ''google'') PNone (PStr ''raw'') (PStr ''GET'') (PStr [])
       (PStr ''html'') (PBool False) PNone PNone (PBool False) 0
     = (Inl (ValueError ''The 'query' parameter cannot be None or empty.''), 0, [])
   \<and> web \<lparr> serp_zone = PStr ''sdk_serp'', DEFAULT_MAX_WORKERS = PInt 10 \<rparr>
       (answering (PStr ''results''))
       (PStr ''   '') (PStr ''google'') PNone (PStr ''raw'') (PStr ''GET'') (PStr [])
       (PStr ''html'') (PBool False) PNone PNone (PBool False) 0
     = (Inl (ValueError ''The 'query' string cannot be empty or whitespace.''), 0, [])
   \<and> web \<lparr> serp_zone = PStr ''sdk_serp'', DEFAULT_MAX_WORKERS = PInt 10 \<rparr>
       (answering (PStr ''results''))
       (PInt 123) (PStr ''google'') PNone (PStr ''raw'') (PStr ''GET'') (PStr [])
       (PStr ''html'') (PBool False) PNone PNone (PBool False) 0
     = (Inl (TypeError ''The 'query' parameter must be a string or a list of strings.''), 0, [])
   \<and> web \<lparr> serp_zone = PStr ''sdk_serp'', DEFAULT_MAX_WORKERS = PInt 10 \<rparr>
       (answering (PStr ''results''))
       (PList [PStr [], PStr ''ok'']) (PStr ''google'') PNone (PStr ''raw'') (PStr ''GET'') (PStr [])
       (PStr ''html'') (PBool False) PNone PNone (PBool False) 0
     = (Inl (ValueError ''All queries in the list must be non-empty strings.''), 0, [])
   \<and> web \<lparr> serp_zone = PStr ''sdk_serp'', DEFAULT_MAX_WORKERS = PInt 10 \<rparr>
       (answering (PStr ''results''))
       (PList [PStr ''   '', PStr ''ok'']) (PStr ''google'') PNone (PStr ''raw'') (PStr ''GET'') (PStr [])
       (PStr ''html'') (PBool False) PNone PNone (PBool False) 0
     = (Inl (ValueError ''All queries in the list must be non-empty strings.''), 0, [])
   \<and> web \<lparr> serp_zone = PStr ''sdk_serp'', DEFAULT_MAX_WORKERS = PInt 10 \<rparr>
       (answering (PStr ''results''))
       (PList [PStr ''a'', PStr ''b'']) (PStr ''google'') PNone (PStr ''raw'') (PStr ''GET'') (PStr [])
       (PStr ''html'') (PBool False) PNone PNone (PBool False) 0
     = (Inr (PStr ''results''), 1, [SearchCall \<lparr> arg_query = PList [PStr ''a'', PStr ''b''], arg_search_engine = PStr ''google'',
             arg_zone = PStr ''sdk_serp'', arg_response_format = PStr ''raw'',
             arg_method = PStr ''GET'', arg_country = PStr [],
             arg_data_format = PStr ''html'', arg_async_request = PBool False,
             arg_max_workers = PInt 10, arg_timeout = PNone, arg_parse = PBool False \<rparr>])
   \<and> web \<lparr> serp_zone = PStr ''sdk_serp'', DEFAULT_MAX_WORKERS = PInt 10 \<rparr>
       (answering (PStr ''results''))
       (PStr ''pizza'') (PStr ''google'') PNone (PStr ''raw'') (PStr ''GET'') (PStr [])
       (PStr ''html'') (PBool False) PNone PNone (PBool False) 0
     = (Inr (PStr ''results''), 1, [SearchCall \<lparr> arg_query = PStr ''pizza'', arg_search_engine = PStr ''google'',
             arg_zone = PStr ''sdk_serp'', arg_response_format = PStr ''raw'',
             arg_method = PStr ''GET'', arg_country = PStr [],
             arg_data_format = PStr ''html'', arg_async_request = PBool False,
             arg_max_workers = PInt 10, arg_timeout = PNone, arg_parse = PBool False \<rparr>])"
proof -
  have h: "\<not> truthy (PStr [])" "\<not> truthy PNone" "\<not> truthy (PInt 0)"
    "''   '' \<noteq> [] \<and> strip ''   '' = []"
    "truthy (PInt 123) \<and> \<not> isinstance_str (PInt 123) \<and> \<not> isinstance_list (PInt 123)"
    "[PStr [], PStr ''ok''] \<noteq> [] \<and> \<not> list_all nonblank_str [PStr [], PStr ''ok'']"
    "[PStr ''   '', PStr ''ok''] \<noteq> []
       \<and> \<not> list_all nonblank_str [PStr ''   '', PStr ''ok'']"
    "[PStr ''a'', PStr ''b''] \<noteq> [] \<and> list_all nonblank_str [PStr ''a'', PStr ''b'']"
    "strip ''pizza'' \<noteq> []"
    by (simp_all add: strip_def py_isspace_def)
  show ?thesis
    using h
      web_query_outcomes
        [of "PStr []"
            "\<lparr> serp_zone = PStr ''sdk_serp'', DEFAULT_MAX_WORKERS = PInt 10 \<rparr>"
            "answering (PStr ''results'')" "PStr ''google''" PNone "PStr ''raw''"
            "PStr ''GET''" "PStr []" "PStr ''html''" "PBool False" PNone PNone "PBool False"
            "0::nat" "''   ''" "[PStr [], PStr ''ok'']"]
      web_query_outcomes
        [of "PNone"
            "\<lparr> serp_zone = PStr ''sdk_serp'', DEFAULT_MAX_WORKERS = PInt 10 \<rparr>"
            "answering (PStr ''results'')" "PStr ''google''" PNone "PStr ''raw''"
            "PStr ''GET''" "PStr []" "PStr ''html''" "PBool False" PNone PNone "PBool False"
            "0::nat" _ "[PStr ''   '', PStr ''ok'']"]
      web_query_outcomes
        [of "PInt 0"
            "\<lparr> serp_zone = PStr ''sdk_serp'', DEFAULT_MAX_WORKERS = PInt 10 \<rparr>"
            "answering (PStr ''results'')" "PStr ''google''" PNone "PStr ''raw''"
            "PStr ''GET''" "PStr []" "PStr ''html''" "PBool False" PNone PNone "PBool False"
            "0::nat" _ _]
      web_query_outcomes
        [of "PInt 123"
            "\<lparr> serp_zone = PStr ''sdk_serp'', DEFAULT_MAX_WORKERS = PInt 10 \<rparr>"
            "answering (PStr ''results'')" "PStr ''google''" PNone "PStr ''raw''"
            "PStr ''GET''" "PStr []" "PStr ''html''" "PBool False" PNone PNone "PBool False"
            "0::nat" _ _]
      web_query_outcomes
        [of "PList [PStr ''a'', PStr ''b'']"
            "\<lparr> serp_zone = PStr ''sdk_serp'', DEFAULT_MAX_WORKERS = PInt 10 \<rparr>"
            "answering (PStr ''results'')" "PStr ''google''" PNone "PStr ''raw''"
            "PStr ''GET''" "PStr []" "PStr ''html''" "PBool False" PNone PNone "PBool False"
            "0::nat" _ _]
      web_query_outcomes
        [of "PStr ''pizza''"
            "\<lparr> serp_zone = PStr ''sdk_serp'', DEFAULT_MAX_WORKERS = PInt 10 \<rparr>"
            "answering (PStr ''results'')" "PStr ''google''" PNone "PStr ''raw''"
            "PStr ''GET''" "PStr []" "PStr ''html''" "PBool False" PNone PNone "PBool False"
            "0::nat" _ _]
    by (simp add: py_or_def answering_def)
qed

text \<open>
  C10.  In a call of \<open>web\<close> that reaches the delegate, the zone passed on is
  \<open>zone\<close> itself when it is true as a truth value and the client's \<open>serp_zone\<close>
  when it is false (\<open>None\<close>, \<open>""\<close>); the worker count passed on is \<open>max_workers\<close>
  itself when it is true and the client's \<open>DEFAULT_MAX_WORKERS\<close> when it is false
  (\<open>None\<close>, \<open>0\<close>).  Both defaults are bound on lines 115--116, before the checks of
  \<open>query\<close>; reading the two fields of the client has no effect of its own.
\<close>

theorem web_defaults:
  assumes "web_validate c query search_engine zone response_format method country
             data_format async_request max_workers timeout parse = Inr call"
  shows "arg_zone call = (if truthy zone then zone else serp_zone c)
       \<and> arg_max_workers call
           = (if truthy max_workers then max_workers else DEFAULT_MAX_WORKERS c)
       \<and> web c search query search_engine zone response_format method country
             data_format async_request max_workers timeout parse s
           = (case search call s of (res, s') \<Rightarrow> (res, s', [SearchCall call]))"
proof -
  define z w where "z = arg_zone call" and "w = arg_max_workers call"
  from assms have "z = py_or zone (serp_zone c)"
    and "w = py_or max_workers (DEFAULT_MAX_WORKERS c)"
    by (auto simp: web_validate_def Let_def z_def w_def split: if_splits sum.splits)
  then show ?thesis
    using assms by (simp add: web_def py_or_def z_def w_def)
qed

text \<open>
  \<open>zone=None\<close> with \<open>max_workers=0\<close>, \<open>zone=""\<close> with \<open>max_workers=None\<close>, and
  \<open>zone="my_zone"\<close> with \<open>max_workers=4\<close>.
\<close>

theorem web_defaults_witness:
  "web_validate \<lparr> serp_zone = PStr ''sdk_serp'', DEFAULT_MAX_WORKERS = PInt 10 \<rparr>
       (PStr ''pizza'') (PStr ''google'') PNone (PStr ''raw'') (PStr ''GET'') (PStr [])
       (PStr ''html'') (PBool False) (PInt 0) PNone (PBool False)
     = Inr \<lparr> arg_query = PStr ''pizza'', arg_search_engine = PStr ''google'',
             arg_zone = PStr ''sdk_serp'', arg_response_format = PStr ''raw'',
             arg_method = PStr ''GET'', arg_country = PStr [],
             arg_data_format = PStr ''html'', arg_async_request = PBool False,
             arg_max_workers = PInt 10, arg_timeout = PNone, arg_parse = PBool False \<rparr>
   \<and> web \<lparr> serp_zone = PStr ''sdk_serp'', DEFAULT_MAX_WORKERS = PInt 10 \<rparr>
       (\<lambda>call n. (Inr (PStr ''results''), Suc n))
       (PStr ''pizza'') (PStr ''google'') PNone (PStr ''raw'') (PStr ''GET'') (PStr [])
       (PStr ''html'') (PBool False) (PInt 0) PNone (PBool False) (0::nat)
     = (Inr (PStr ''results''), 1,
        [SearchCall \<lparr> arg_query = PStr ''pizza'', arg_search_engine = PStr ''google'',
             arg_zone = PStr ''sdk_serp'', arg_response_format = PStr ''raw'',
             arg_method = PStr ''GET'', arg_country = PStr [],
             arg_data_format = PStr ''html'', arg_async_request = PBool False,
             arg_max_workers = PInt 10, arg_timeout = PNone, arg_parse = PBool False \<rparr>])
   \<and> web_validate \<lparr> serp_zone = PStr ''sdk_serp'', DEFAULT_MAX_WORKERS = PInt 10 \<rparr>
       (PStr ''pizza'') (PStr ''google'') (PStr []) (PStr ''raw'') (PStr ''GET'') (PStr [])
       (PStr ''html'') (PBool False) PNone PNone (PBool False)
     = Inr \<lparr> arg_query = PStr ''pizza'', arg_search_engine = PStr ''google'',
             arg_zone = PStr ''sdk_serp'', arg_response_format = PStr ''raw'',
             arg_method = PStr ''GET'', arg_country = PStr [],
             arg_data_format = PStr ''html'', arg_async_request = PBool False,
             arg_max_workers = PInt 10, arg_timeout = PNone, arg_parse = PBool False \<rparr>
   \<and> web_validate \<lparr> serp_zone = PStr ''sdk_serp'', DEFAULT_MAX_WORKERS = PInt 10 \<rparr>
       (PStr ''pizza'') (PStr ''google'') (PStr ''my_zone'') (PStr ''raw'') (PStr ''GET'')
       (PStr []) (PStr ''html'') (PBool False) (PInt 4) PNone (PBool False)
     = Inr \<lparr> arg_query = PStr ''pizza'', arg_search_engine = PStr ''google'',
             arg_zone = PStr ''my_zone'', arg_response_format = PStr ''raw'',
             arg_method = PStr ''GET'', arg_country = PStr [],
             arg_data_format = PStr ''html'', arg_async_request = PBool False,
             arg_max_workers = PInt 4, arg_timeout = PNone, arg_parse = PBool False \<rparr>
   \<and> web \<lparr> serp_zone = PStr ''sdk_serp'', DEFAULT_MAX_WORKERS = PInt 10 \<rparr>
       (\<lambda>call n. (Inr (PStr ''results''), Suc n))
       (PStr ''pizza'') (PStr ''google'') (PStr ''my_zone'') (PStr ''raw'') (PStr ''GET'')
       (PStr []) (PStr ''html'') (PBool False) (PInt 4) PNone (PBool False) (0::nat)
     = (Inr (PStr ''results''), 1,
        [SearchCall \<lparr> arg_query = PStr ''pizza'', arg_search_engine = PStr ''google'',
             arg_zone = PStr ''my_zone'', arg_response_format = PStr ''raw'',
             arg_method = PStr ''GET'', arg_country = PStr [],
             arg_data_format = PStr ''html'', arg_async_request = PBool False,
             arg_max_workers = PInt 4, arg_timeout = PNone, arg_parse = PBool False \<rparr>])"
proof -
  have v1: "web_validate \<lparr> serp_zone = PStr ''sdk_serp'', DEFAULT_MAX_WORKERS = PInt 10 \<rparr>
       (PStr ''pizza'') (PStr ''google'') PNone (PStr ''raw'') (PStr ''GET'') (PStr [])
       (PStr ''html'') (PBool False) (PInt 0) PNone (PBool False)
     = Inr \<lparr> arg_query = PStr ''pizza'', arg_search_engine = PStr ''google'',
             arg_zone = PStr ''sdk_serp'', arg_response_format = PStr ''raw'',
             arg_method = PStr ''GET'', arg_country = PStr [],
             arg_data_format = PStr ''html'', arg_async_request = PBool False,
             arg_max_workers = PInt 10, arg_timeout = PNone, arg_parse = PBool False \<rparr>"
    by (simp add: web_validate_eval)
  have v2: "web_validate \<lparr> serp_zone = PStr ''sdk_serp'', DEFAULT_MAX_WORKERS = PInt 10 \<rparr>
       (PStr ''pizza'') (PStr ''google'') (PStr []) (PStr ''raw'') (PStr ''GET'') (PStr [])
       (PStr ''html'') (PBool False) PNone PNone (PBool False)
     = Inr \<lparr> arg_query = PStr ''pizza'', arg_search_engine = PStr ''google'',
             arg_zone = PStr ''sdk_serp'', arg_response_format = PStr ''raw'',
             arg_method = PStr ''GET'', arg_country = PStr [],
             arg_data_format = PStr ''html'', arg_async_request = PBool False,
             arg_max_workers = PInt 10, arg_timeout = PNone, arg_parse = PBool False \<rparr>"
    by (simp add: web_validate_eval)
  have v3: "web_validate \<lparr> serp_zone = PStr ''sdk_serp'', DEFAULT_MAX_WORKERS = PInt 10 \<rparr>
       (PStr ''pizza'') (PStr ''google'') (PStr ''my_zone'') (PStr ''raw'') (PStr ''GET'')
       (PStr []) (PStr ''html'') (PBool False) (PInt 4) PNone (PBool False)
     = Inr \<lparr> arg_query = PStr ''pizza'', arg_search_engine = PStr ''google'',
             arg_zone = PStr ''my_zone'', arg_response_format = PStr ''raw'',
             arg_method = PStr ''GET'', arg_country = PStr [],
             arg_data_format = PStr ''html'', arg_async_request = PBool False,
             arg_max_workers = PInt 4, arg_timeout = PNone, arg_parse = PBool False \<rparr>"
    by (simp add: web_validate_eval)
  show ?thesis
    using v1 v2 v3
      web_defaults [OF v1, of "\<lambda>call n. (Inr (PStr ''results''), Suc n)" "0::nat"]
      web_defaults [OF v3, of "\<lambda>call n. (Inr (PStr ''results''), Suc n)" "0::nat"]
    by simp
qed

end
